theory Spec2Isabelle
  imports Complex_Main
begin

section \<open>Numbers, vectors and 4x4 matrices\<close>

text \<open>
  The converter works on numpy arrays of Python floats. Floats are idealised as
  \<^typ>\<open>real\<close>: every property below is about the algebra of the computation, and
  the concrete inputs used further down are small integers, on which floating-point
  arithmetic is exact.

  \<open>world_transforms\<close> is an array of shape \<open>(nframes, 4, 4)\<close>: a list with one
  4x4 matrix per frame.
\<close>

datatype vec4 = Vec4 real real real real

datatype mat4 = Mat4 vec4 vec4 vec4 vec4

fun dot4 :: "vec4 \<Rightarrow> vec4 \<Rightarrow> real" where
  "dot4 (Vec4 a b c d) (Vec4 e f g h) = a * e + b * f + c * g + d * h"

fun transpose4 :: "mat4 \<Rightarrow> mat4" where
  "transpose4 (Mat4 (Vec4 a0 a1 a2 a3) (Vec4 b0 b1 b2 b3) (Vec4 c0 c1 c2 c3) (Vec4 d0 d1 d2 d3)) =
     Mat4 (Vec4 a0 b0 c0 d0) (Vec4 a1 b1 c1 d1) (Vec4 a2 b2 c2 d2) (Vec4 a3 b3 c3 d3)"

fun vecmat :: "vec4 \<Rightarrow> mat4 \<Rightarrow> vec4" where
  "vecmat u (Mat4 p q r s) = Vec4 (dot4 u p) (dot4 u q) (dot4 u r) (dot4 u s)"

text \<open>\<open>np.matmul\<close> on one pair of 4x4 matrices: rows of the left times columns of the right.\<close>

fun matmul :: "mat4 \<Rightarrow> mat4 \<Rightarrow> mat4" where
  "matmul (Mat4 a b c d) B =
     Mat4 (vecmat a (transpose4 B)) (vecmat b (transpose4 B))
          (vecmat c (transpose4 B)) (vecmat d (transpose4 B))"

definition eye4 :: mat4 where
  "eye4 = Mat4 (Vec4 1 0 0 0) (Vec4 0 1 0 0) (Vec4 0 0 1 0) (Vec4 0 0 0 1)"

text \<open>The translation block \<open>M[:3, 3]\<close> of one matrix, read and written.\<close>

fun translation :: "mat4 \<Rightarrow> real \<times> real \<times> real" where
  "translation (Mat4 (Vec4 a0 a1 a2 x) (Vec4 b0 b1 b2 y) (Vec4 c0 c1 c2 z) d) = (x, y, z)"

fun set_translation :: "real \<times> real \<times> real \<Rightarrow> mat4 \<Rightarrow> mat4" where
  "set_translation (x, y, z) (Mat4 (Vec4 a0 a1 a2 a3) (Vec4 b0 b1 b2 b3) (Vec4 c0 c1 c2 c3) d) =
     Mat4 (Vec4 a0 a1 a2 x) (Vec4 b0 b1 b2 y) (Vec4 c0 c1 c2 z) d"

text \<open>\<open>M[:3, 3] *= scale\<close> on one matrix.\<close>

fun scale_translation :: "real \<Rightarrow> mat4 \<Rightarrow> mat4" where
  "scale_translation k (Mat4 (Vec4 a0 a1 a2 x) (Vec4 b0 b1 b2 y) (Vec4 c0 c1 c2 z) d) =
     Mat4 (Vec4 a0 a1 a2 (x * k)) (Vec4 b0 b1 b2 (y * k)) (Vec4 c0 c1 c2 (z * k)) d"


text \<open>
  \<open>t3d.affines.compose(T, R, np.ones(3))\<close> for a rotation given as a 4x4 matrix with
  zero translation: the rotation block of \<open>R\<close>, the translation \<open>T\<close>, bottom row
  \<open>[0, 0, 0, 1]\<close>.
\<close>

fun compose_affine :: "real \<times> real \<times> real \<Rightarrow> mat4 \<Rightarrow> mat4" where
  "compose_affine (x, y, z) (Mat4 (Vec4 a0 a1 a2 a3) (Vec4 b0 b1 b2 b3) (Vec4 c0 c1 c2 c3) d) =
     Mat4 (Vec4 a0 a1 a2 x) (Vec4 b0 b1 b2 y) (Vec4 c0 c1 c2 z) (Vec4 0 0 0 1)"

section \<open>Errors\<close>

text \<open>
  Every exception the Python code can raise is a value. In Python 3 \<open>IOError\<close> is an
  alias of \<open>OSError\<close>, so \<open>except IOError\<close> catches exactly \<open>OSError\<close>.
  \<open>LibraryError\<close> stands for any other exception raised inside a library call.
\<close>

datatype error = IndexError | TypeError | ValueError | StopIteration | OSError | LibraryError

section \<open>The parsed tree\<close>

text \<open>
  A \<open>BvhNode\<close> of the \<open>bvh\<close> package has a token list \<open>value\<close> (the words of its
  line), a list of children and a parent reference. The parent reference is the nesting
  of the datatype; the traversal below hands a child what it reads from its parent.
\<close>

datatype node = Node (nvalue: "string list") (children: "node list")

text \<open>\<open>node.name\<close> is \<open>node.value[1]\<close>.\<close>

definition node_name :: "node \<Rightarrow> error + string" where
  "node_name j = (case nvalue j of _ # nm # _ \<Rightarrow> Inr nm | _ \<Rightarrow> Inl IndexError)"

text \<open>
  \<open>node[key]\<close> (\<open>BvhNode.__getitem__\<close>): the tokens after \<open>key\<close> in the first child
  line that contains \<open>key\<close>; Python's \<open>None\<close> when \<open>key\<close> is the last token of that
  line; \<open>IndexError\<close> when no child line contains it.
\<close>

fun getitem_children :: "node list \<Rightarrow> string \<Rightarrow> error + string list option" where
  "getitem_children [] key = Inl IndexError"
| "getitem_children (c # cs) key =
     (case dropWhile (\<lambda>item. item \<noteq> key) (nvalue c) of
        [] \<Rightarrow> getitem_children cs key
      | _ # rest \<Rightarrow> Inr (if rest = [] then None else Some rest))"

definition getitem :: "node \<Rightarrow> string \<Rightarrow> error + string list option" where
  "getitem j key = getitem_children (children j) key"

text \<open>\<open>str.lower()\<close> on the ASCII letters (channel names are ASCII).\<close>

definition lower_char :: "char \<Rightarrow> char" where
  "lower_char c =
     (case map_of (zip ''ABCDEFGHIJKLMNOPQRSTUVWXYZ'' ''abcdefghijklmnopqrstuvwxyz'') c of
        Some l \<Rightarrow> l | None \<Rightarrow> c)"

definition lower :: "string \<Rightarrow> string" where
  "lower s = map lower_char s"

text \<open>
  Lines 96-97: the first letters of the rotation channels, lower-cased, reversed, after
  the letter \<open>s\<close> (static axes).
\<close>

definition axes_order :: "string list \<Rightarrow> string" where
  "axes_order channels =
     CHR ''s'' # rev (lower (concat (map (take 1) (filter (\<lambda>ch. drop 1 ch = ''rotation'') channels))))"

section \<open>The tree object and what lies outside the source file\<close>

text \<open>
  A \<open>Bvh\<close> object of the \<open>bvh\<close> package: the nameless top node \<open>root\<close> (its
  \<open>value\<close> is empty; the \<open>ROOT\<close> joint is one of its children) and the properties and
  methods the converter calls, each of which may raise.
\<close>

record bvh =
  root :: node
  nframes :: "error + nat"
  frame_time :: "error + real"
  joint_channels :: "string \<Rightarrow> error + string list"
  frames_joint_channels :: "string \<Rightarrow> string list \<Rightarrow> error + real list list"

text \<open>A data frame is a list of named columns; \<open>pd.concat(dfs, axis=1)\<close> appends them.\<close>

type_synonym column = "string \<times> real list"

type_synonym table = "column list"

text \<open>
  The rest of the world: Python's \<open>float\<close>, numpy's \<open>arange\<close> on floats, the file
  system as the converter meets it, \<open>os.path\<close>, and \<open>get_affines\<close>.

  Modelled from the spec: \<open>get_affines(bvh_tree, joint_name, axes)\<close> of
  \<open>converters/bvh_transforms.py\<close> is missing. It builds one 4x4 affine per frame from
  the channel samples of the named joint. The traversal calls it with the tree object
  it was given: it reads channel data and no End Site, the only nodes the traversal
  writes to.
\<close>

record env =
  get_affines :: "bvh \<Rightarrow> string \<Rightarrow> string \<Rightarrow> error + mat4 list"
  pyfloat :: "string \<Rightarrow> real option"
  arange :: "real \<Rightarrow> real \<Rightarrow> real \<Rightarrow> error + real list"
  open_bvh :: "string \<Rightarrow> error + bvh"
  dirname :: "string \<Rightarrow> string"
  basename :: "string \<Rightarrow> string"
  path_join :: "string \<Rightarrow> string \<Rightarrow> string"
  can_mkdir :: "string \<Rightarrow> bool"
  can_write :: "string \<Rightarrow> bool"

section \<open>The forward-kinematics traversal\<close>

text \<open>\<open>[float(o) for o in joint['OFFSET']]\<close>: \<open>ValueError\<close> at the first token that is no number.\<close>

fun floats :: "(string \<Rightarrow> real option) \<Rightarrow> string list \<Rightarrow> error + real list" where
  "floats pf [] = Inr []"
| "floats pf (tok # toks) =
     (case pf tok of
        None \<Rightarrow> Inl ValueError
      | Some x \<Rightarrow> (case floats pf toks of Inl e \<Rightarrow> Inl e | Inr xs \<Rightarrow> Inr (x # xs)))"

definition joint_offset :: "env \<Rightarrow> node \<Rightarrow> error + real list" where
  "joint_offset env j =
     (case getitem j ''OFFSET'' of
        Inl e \<Rightarrow> Inl e
      | Inr None \<Rightarrow> Inl TypeError
      | Inr (Some toks) \<Rightarrow> floats (pyfloat env) toks)"

text \<open>
  \<open>world_transforms[:, :3, 3] = offset\<close>: numpy broadcasts a list of three values, or of
  one value, over the frames; any other length is a \<open>ValueError\<close>.
\<close>

definition offset_vector :: "real list \<Rightarrow> error + real \<times> real \<times> real" where
  "offset_vector offset =
     (case offset of
        [x, y, z] \<Rightarrow> Inr (x, y, z)
      | [x] \<Rightarrow> Inr (x, x, x)
      | _ \<Rightarrow> Inl ValueError)"

definition assign_offset :: "real list \<Rightarrow> mat4 list \<Rightarrow> error + mat4 list" where
  "assign_offset offset W =
     (case offset_vector offset of
        Inl e \<Rightarrow> Inl e
      | Inr t \<Rightarrow> Inr (map (set_translation t) W))"

text \<open>
  \<open>np.matmul\<close> on two stacks of matrices: frame by frame; a stack of one matrix is
  broadcast over the other; other length mismatches are a \<open>ValueError\<close>.
\<close>

definition matmul_frames :: "mat4 list \<Rightarrow> mat4 list \<Rightarrow> error + mat4 list" where
  "matmul_frames A B =
     (if length A = length B then Inr (map2 matmul A B)
      else if length A = 1 then Inr (map (matmul (hd A)) B)
      else if length B = 1 then Inr (map (\<lambda>a. matmul a (hd B)) A)
      else Inl ValueError)"

text \<open>
  Lines 90-98: the array first stored in \<open>joint.world_transforms\<close>, and the node after
  the assignment to \<open>joint.value[1]\<close>. The parent is \<open>None\<close> for the root, and otherwise
  the parent's name and world transforms. The root is found by \<open>filter('ROOT')\<close>, so it
  is never an \<open>End\<close> node; the nameless top node above it would raise \<open>IndexError\<close>.
\<close>

definition own_transforms ::
  "env \<Rightarrow> bvh \<Rightarrow> nat \<Rightarrow> (string \<times> mat4 list) option \<Rightarrow> node \<Rightarrow> error + (node \<times> mat4 list)" where
  "own_transforms env bvh_tree n parent joint =
     (case nvalue joint of
        [] \<Rightarrow> Inl IndexError
      | tag # _ \<Rightarrow>
          if tag = ''End'' then
            (case parent of
               None \<Rightarrow> Inl IndexError
             | Some (pname, pw) \<Rightarrow>
                 if length (nvalue joint) < 2 then Inl IndexError
                 else Inr (Node ((nvalue joint)[1 := pname @ ''_End'']) (children joint),
                           replicate n eye4))
          else
            (case getitem joint ''CHANNELS'' of
               Inl e \<Rightarrow> Inl e
             | Inr None \<Rightarrow> Inl TypeError
             | Inr (Some toks) \<Rightarrow>
                 (case node_name joint of
                    Inl e \<Rightarrow> Inl e
                  | Inr name \<Rightarrow>
                      (case get_affines env bvh_tree name (axes_order (drop 1 toks)) of
                         Inl e \<Rightarrow> Inl e
                       | Inr W \<Rightarrow> Inr (joint, W)))))"

text \<open>
  Lines 100-103: for a joint other than the root, the translation block of every frame
  is overwritten with the joint's OFFSET. This is the local transform that enters the
  composition.
\<close>

definition local_transforms ::
  "env \<Rightarrow> bvh \<Rightarrow> nat \<Rightarrow> (string \<times> mat4 list) option \<Rightarrow> node \<Rightarrow> error + (node \<times> mat4 list)" where
  "local_transforms env bvh_tree n parent joint =
     (case own_transforms env bvh_tree n parent joint of
        Inl e \<Rightarrow> Inl e
      | Inr (joint', W) \<Rightarrow>
          (case parent of
             None \<Rightarrow> Inr (joint', W)
           | Some _ \<Rightarrow>
               (case joint_offset env joint' of
                  Inl e \<Rightarrow> Inl e
                | Inr offset \<Rightarrow>
                    (case assign_offset offset W of
                       Inl e \<Rightarrow> Inl e
                     | Inr L \<Rightarrow> Inr (joint', L)))))"

text \<open>
  Lines 104-106: composition with the parent's world transforms, then the scaling of the
  translation block of the result.
\<close>

definition world_transforms ::
  "env \<Rightarrow> bvh \<Rightarrow> nat \<Rightarrow> real \<Rightarrow> (string \<times> mat4 list) option \<Rightarrow> node \<Rightarrow> error + (node \<times> mat4 list)" where
  "world_transforms env bvh_tree n scale parent joint =
     (case local_transforms env bvh_tree n parent joint of
        Inl e \<Rightarrow> Inl e
      | Inr (joint', L) \<Rightarrow>
          (case (case parent of
                   None \<Rightarrow> Inr L
                 | Some (pname, pw) \<Rightarrow> matmul_frames pw L) of
             Inl e \<Rightarrow> Inl e
           | Inr W \<Rightarrow>
               Inr (joint', if scale \<noteq> 1 then map (scale_translation scale) W else W)))"

text \<open>
  After the End Site pass and the JOINT pass over the children of one joint: the End
  Site pass replaces one \<open>End\<close> child, the JOINT pass replaces \<open>JOINT\<close> children only.
\<close>

definition merge_children :: "node list \<Rightarrow> node list \<Rightarrow> node list" where
  "merge_children after_end after_joints =
     map2 (\<lambda>e j. if take 1 (nvalue j) = [''JOINT''] then j else e) after_end after_joints"

text \<open>
  \<open>get_world_locations\<close> (lines 89-117). It returns the visited node with its subtree
  as the traversal leaves it, and the list of visited nodes in visiting order, each with
  its name and its \<open>world_transforms\<close>.

  \<open>visit_end\<close> is lines 113-115 once \<open>list(joint.filter('End'))\<close> has been built: the
  call on the first \<open>End\<close> child. \<open>visit_joints\<close> is the loop of lines 116-117 over the
  generator \<open>joint.filter('JOINT')\<close>, which reads \<open>child.value[0]\<close> child by child.
\<close>

fun get_world_locations ::
    "env \<Rightarrow> bvh \<Rightarrow> nat \<Rightarrow> real \<Rightarrow> bool \<Rightarrow> (string \<times> mat4 list) option \<Rightarrow> node
      \<Rightarrow> error + (node \<times> (string \<times> mat4 list) list)"
  and visit_end ::
    "env \<Rightarrow> bvh \<Rightarrow> nat \<Rightarrow> real \<Rightarrow> bool \<Rightarrow> (string \<times> mat4 list) \<Rightarrow> node list
      \<Rightarrow> error + (node list \<times> (string \<times> mat4 list) list)"
  and visit_joints ::
    "env \<Rightarrow> bvh \<Rightarrow> nat \<Rightarrow> real \<Rightarrow> bool \<Rightarrow> (string \<times> mat4 list) \<Rightarrow> node list
      \<Rightarrow> error + (node list \<times> (string \<times> mat4 list) list)"
where
  "get_world_locations env bvh_tree n scale end_sites parent (Node v cs) =
     (case world_transforms env bvh_tree n scale parent (Node v cs) of
        Inl e \<Rightarrow> Inl e
      | Inr (joint', W) \<Rightarrow>
          (case node_name joint' of
             Inl e \<Rightarrow> Inl e
           | Inr name \<Rightarrow>
               (case (if end_sites then
                        (if [] \<in> nvalue ` set cs then Inl IndexError
                         else visit_end env bvh_tree n scale end_sites (name, W) cs)
                      else Inr (cs, [])) of
                  Inl e \<Rightarrow> Inl e
                | Inr (after_end, end_rows) \<Rightarrow>
                    (case visit_joints env bvh_tree n scale end_sites (name, W) cs of
                       Inl e \<Rightarrow> Inl e
                     | Inr (after_joints, joint_rows) \<Rightarrow>
                         Inr (Node (nvalue joint') (merge_children after_end after_joints),
                              (name, W) # end_rows @ joint_rows)))))"
| "visit_end env bvh_tree n scale end_sites parent [] = Inr ([], [])"
| "visit_end env bvh_tree n scale end_sites parent (c # cs) =
     (if take 1 (nvalue c) = [''End''] then
        (case get_world_locations env bvh_tree n scale end_sites (Some parent) c of
           Inl e \<Rightarrow> Inl e
         | Inr (c', rows) \<Rightarrow> Inr (c' # cs, rows))
      else
        (case visit_end env bvh_tree n scale end_sites parent cs of
           Inl e \<Rightarrow> Inl e
         | Inr (cs', rows) \<Rightarrow> Inr (c # cs', rows)))"
| "visit_joints env bvh_tree n scale end_sites parent [] = Inr ([], [])"
| "visit_joints env bvh_tree n scale end_sites parent (c # cs) =
     (case nvalue c of
        [] \<Rightarrow> Inl IndexError
      | tag # _ \<Rightarrow>
          if tag = ''JOINT'' then
            (case get_world_locations env bvh_tree n scale end_sites (Some parent) c of
               Inl e \<Rightarrow> Inl e
             | Inr (c', rows) \<Rightarrow>
                 (case visit_joints env bvh_tree n scale end_sites parent cs of
                    Inl e \<Rightarrow> Inl e
                  | Inr (cs', rows') \<Rightarrow> Inr (c' # cs', rows @ rows')))
          else
            (case visit_joints env bvh_tree n scale end_sites parent cs of
               Inl e \<Rightarrow> Inl e
             | Inr (cs', rows') \<Rightarrow> Inr (c # cs', rows')))"

section \<open>The two writers\<close>

text \<open>
  What a run changes: the paths that exist, the CSV files written, the calls of
  \<open>to_csv\<close> in order, and what was printed.
\<close>

datatype message = CouldNotOpen string | CouldNotWrite string | Aborting

record world =
  existing :: "string set"
  files :: "string \<rightharpoonup> table"
  to_csv_calls :: "string list"
  stdout :: "message list"

text \<open>
  \<open>df.to_csv(filepath)\<close>: the call is made; it writes the file, or raises \<open>IOError\<close>
  where the destination cannot be written.
\<close>

definition to_csv :: "env \<Rightarrow> world \<Rightarrow> string \<Rightarrow> table \<Rightarrow> error option \<times> world" where
  "to_csv env w filepath df =
     (let w' = w\<lparr>to_csv_calls := to_csv_calls w @ [filepath]\<rparr> in
      if can_write env filepath
      then (None, w'\<lparr>files := (files w')(filepath \<mapsto> df), existing := insert filepath (existing w')\<rparr>)
      else (Some OSError, w'))"

text \<open>Lines 62-68 and 122-128: the \<open>try\<close> around \<open>to_csv\<close>.\<close>

definition try_to_csv :: "env \<Rightarrow> world \<Rightarrow> string \<Rightarrow> table \<Rightarrow> error + bool \<times> world" where
  "try_to_csv env w filepath df =
     (case to_csv env w filepath df of
        (None, w') \<Rightarrow> Inr (True, w')
      | (Some e, w') \<Rightarrow>
          if e = OSError then Inr (False, w'\<lparr>stdout := stdout w' @ [CouldNotWrite filepath]\<rparr>)
          else Inl e)"

text \<open>
  Lines 53 and 85: \<open>np.arange(0, nframes * frame_time, frame_time)\<close>, named \<open>time\<close>.
\<close>

definition time_col :: "env \<Rightarrow> bvh \<Rightarrow> error + column" where
  "time_col env bvh_tree =
     (case nframes bvh_tree of
        Inl e \<Rightarrow> Inl e
      | Inr n \<Rightarrow>
          (case frame_time bvh_tree of
             Inl e \<Rightarrow> Inl e
           | Inr ft \<Rightarrow>
               (case arange env 0 (real n * ft) ft of
                  Inl e \<Rightarrow> Inl e
                | Inr ts \<Rightarrow> Inr (''time'', ts))))"

text \<open>\<open>next(node.filter(key))\<close>: the first child whose \<open>value[0]\<close> is \<open>key\<close>.\<close>

fun next_filter :: "string \<Rightarrow> node list \<Rightarrow> error + node" where
  "next_filter key [] = Inl StopIteration"
| "next_filter key (c # cs) =
     (case nvalue c of
        [] \<Rightarrow> Inl IndexError
      | tag # _ \<Rightarrow> if tag = key then Inr c else next_filter key cs)"

text \<open>The children of the top node once the traversal has run on the \<open>ROOT\<close> joint.\<close>

fun replace_root :: "node \<Rightarrow> node list \<Rightarrow> node list" where
  "replace_root r [] = []"
| "replace_root r (c # cs) =
     (if take 1 (nvalue c) = [''ROOT''] then r # cs else c # replace_root r cs)"

text \<open>Lines 108-110: the three columns of one visited node.\<close>

definition location_columns :: "string \<times> mat4 list \<Rightarrow> table" where
  "location_columns row =
     [(fst row @ ''.x'', map (\<lambda>M. fst (translation M)) (snd row)),
      (fst row @ ''.y'', map (\<lambda>M. fst (snd (translation M))) (snd row)),
      (fst row @ ''.z'', map (\<lambda>M. snd (snd (translation M))) (snd row))]"

text \<open>
  Lines 85-120 of \<open>write_joint_locations\<close>: the tree object as the traversal leaves it,
  the visited nodes with their world transforms, and the data frame.
\<close>

definition locations_frame ::
  "env \<Rightarrow> bvh \<Rightarrow> real \<Rightarrow> bool \<Rightarrow> error + bvh \<times> (string \<times> mat4 list) list \<times> table" where
  "locations_frame env bvh_tree scale end_sites =
     (case time_col env bvh_tree of
        Inl e \<Rightarrow> Inl e
      | Inr tc \<Rightarrow>
          (case next_filter ''ROOT'' (children (root bvh_tree)) of
             Inl e \<Rightarrow> Inl e
           | Inr r \<Rightarrow>
               (case nframes bvh_tree of
                  Inl e \<Rightarrow> Inl e
                | Inr n \<Rightarrow>
                    (case get_world_locations env bvh_tree n scale end_sites None r of
                       Inl e \<Rightarrow> Inl e
                     | Inr (r', rows) \<Rightarrow>
                         Inr (bvh_tree\<lparr>root := Node (nvalue (root bvh_tree))
                                                 (replace_root r' (children (root bvh_tree)))\<rparr>,
                              rows,
                              tc # concat (map location_columns rows))))))"

definition write_joint_locations ::
  "env \<Rightarrow> world \<Rightarrow> bvh \<Rightarrow> string \<Rightarrow> real \<Rightarrow> bool \<Rightarrow> error + bool \<times> bvh \<times> world" where
  "write_joint_locations env w bvh_tree filepath scale end_sites =
     (case locations_frame env bvh_tree scale end_sites of
        Inl e \<Rightarrow> Inl e
      | Inr (bvh_tree', rows, df) \<Rightarrow>
          (case try_to_csv env w filepath df of
             Inl e \<Rightarrow> Inl e
           | Inr (ok, w') \<Rightarrow> Inr (ok, bvh_tree', w')))"

text \<open>
  \<open>Bvh.get_joints()\<close>: the \<open>ROOT\<close> joint and, depth first, the \<open>JOINT\<close> children.
\<close>

fun iterate_joints :: "node \<Rightarrow> error + node list"
  and iterate_children :: "node list \<Rightarrow> error + node list"
where
  "iterate_joints (Node v cs) =
     (case iterate_children cs of Inl e \<Rightarrow> Inl e | Inr js \<Rightarrow> Inr (Node v cs # js))"
| "iterate_children [] = Inr []"
| "iterate_children (c # cs) =
     (case nvalue c of
        [] \<Rightarrow> Inl IndexError
      | tag # _ \<Rightarrow>
          if tag = ''JOINT'' then
            (case iterate_joints c of
               Inl e \<Rightarrow> Inl e
             | Inr js \<Rightarrow> (case iterate_children cs of Inl e \<Rightarrow> Inl e | Inr js' \<Rightarrow> Inr (js @ js')))
          else iterate_children cs)"

definition get_joints :: "bvh \<Rightarrow> error + node list" where
  "get_joints bvh_tree =
     (case next_filter ''ROOT'' (children (root bvh_tree)) of
        Inl e \<Rightarrow> Inl e
      | Inr r \<Rightarrow> iterate_joints r)"

text \<open>
  \<open>pd.DataFrame(data=rows, columns=names)\<close> from a list of rows: every row needs one
  value per column.
\<close>

definition data_frame :: "real list list \<Rightarrow> string list \<Rightarrow> error + table" where
  "data_frame rows names =
     (if list_all (\<lambda>r. length r = length names) rows
      then Inr (map (\<lambda>k. (names ! k, map (\<lambda>r. r ! k) rows)) [0..<length names])
      else Inl ValueError)"

text \<open>Lines 55-58: the rotation columns, joint by joint.\<close>

fun rotation_columns :: "bvh \<Rightarrow> node list \<Rightarrow> error + table" where
  "rotation_columns bvh_tree [] = Inr []"
| "rotation_columns bvh_tree (joint # joints) =
     (case node_name joint of
        Inl e \<Rightarrow> Inl e
      | Inr name \<Rightarrow>
          (case joint_channels bvh_tree name of
             Inl e \<Rightarrow> Inl e
           | Inr chs \<Rightarrow>
               (let channels = filter (\<lambda>channel. drop 1 channel = ''rotation'') chs;
                    column_names = map (\<lambda>channel. name @ ''.'' @ lower (take 1 channel)) channels
                in case frames_joint_channels bvh_tree name channels of
                     Inl e \<Rightarrow> Inl e
                   | Inr rows \<Rightarrow>
                       (case data_frame rows column_names of
                          Inl e \<Rightarrow> Inl e
                        | Inr df \<Rightarrow>
                            (case rotation_columns bvh_tree joints of
                               Inl e \<Rightarrow> Inl e
                             | Inr dfs \<Rightarrow> Inr (df @ dfs))))))"

text \<open>Lines 53-60 of \<open>write_joint_rotations\<close>: the data frame.\<close>

definition rotations_frame :: "env \<Rightarrow> bvh \<Rightarrow> error + table" where
  "rotations_frame env bvh_tree =
     (case time_col env bvh_tree of
        Inl e \<Rightarrow> Inl e
      | Inr tc \<Rightarrow>
          (case get_joints bvh_tree of
             Inl e \<Rightarrow> Inl e
           | Inr joints \<Rightarrow>
               (case rotation_columns bvh_tree joints of
                  Inl e \<Rightarrow> Inl e
                | Inr dfs \<Rightarrow> Inr (tc # dfs))))"

definition write_joint_rotations :: "env \<Rightarrow> world \<Rightarrow> bvh \<Rightarrow> string \<Rightarrow> error + bool \<times> world" where
  "write_joint_rotations env w bvh_tree filepath =
     (case rotations_frame env bvh_tree of
        Inl e \<Rightarrow> Inl e
      | Inr df \<Rightarrow> try_to_csv env w filepath df)"

section \<open>The conversion and the command line\<close>

text \<open>
  Lines 159-165: the common prefix of the two output paths. A destination directory
  that does not exist is created; \<open>os.mkdir\<close> raises \<open>OSError\<close> where it cannot, and
  nothing catches it.
\<close>

definition destination :: "env \<Rightarrow> world \<Rightarrow> string \<Rightarrow> string option \<Rightarrow> error + string \<times> world" where
  "destination env w bvh_filepath dst_dirpath =
     (let stem = (\<lambda>s. take (length s - 4) s) (basename env bvh_filepath) in
      case dst_dirpath of
        None \<Rightarrow> Inr (path_join env (dirname env bvh_filepath) stem, w)
      | Some d \<Rightarrow>
          if d = [] then Inr (path_join env (dirname env bvh_filepath) stem, w)
          else if d \<in> existing w then Inr (path_join env d stem, w)
          else if can_mkdir env d then Inr (path_join env d stem, w\<lparr>existing := insert d (existing w)\<rparr>)
          else Inl OSError)"

text \<open>
  \<open>bvh2csv\<close> (lines 131-174). An uncaught exception ends the run: the result is then
  the exception alone.
\<close>

definition bvh2csv ::
  "env \<Rightarrow> world \<Rightarrow> string \<Rightarrow> string option \<Rightarrow> real \<Rightarrow> bool \<Rightarrow> bool \<Rightarrow> bool \<Rightarrow> error + bool \<times> world" where
  "bvh2csv env w bvh_filepath dst_dirpath scale do_rotation do_location end_sites =
     (case open_bvh env bvh_filepath of
        Inl e \<Rightarrow>
          if e = OSError then Inr (False, w\<lparr>stdout := stdout w @ [CouldNotOpen bvh_filepath]\<rparr>)
          else Inl e
      | Inr mocap \<Rightarrow>
          (case destination env w bvh_filepath dst_dirpath of
             Inl e \<Rightarrow> Inl e
           | Inr (dst_filepath, w1) \<Rightarrow>
               (case (if do_location
                      then write_joint_locations env w1 mocap (dst_filepath @ ''_loc.csv'') scale end_sites
                      else Inr (True, mocap, w1)) of
                  Inl e \<Rightarrow> Inl e
                | Inr (loc_success, mocap', w2) \<Rightarrow>
                    (case (if do_rotation
                           then write_joint_rotations env w2 mocap' (dst_filepath @ ''_rot.csv'')
                           else Inr (True, w2)) of
                       Inl e \<Rightarrow> Inl e
                     | Inr (rot_success, w3) \<Rightarrow>
                         Inr (if \<not> (loc_success \<or> rot_success) then False else True, w3)))))"

text \<open>
  Lines 196-211: the flags as parsed, the default of both outputs, and the exit status
  of the process. An uncaught exception ends the process with status 1.
\<close>

record args =
  input_bvh :: string
  out :: "string option"
  scale_arg :: real
  rotation :: bool
  location :: bool
  ends :: bool

definition main :: "env \<Rightarrow> world \<Rightarrow> args \<Rightarrow> nat \<times> world" where
  "main env w a =
     (let do_rotation = (if \<not> rotation a \<and> \<not> location a then True else rotation a);
          do_location = (if \<not> rotation a \<and> \<not> location a then True else location a)
      in case bvh2csv env w (input_bvh a) (out a) (scale_arg a) do_rotation do_location (ends a) of
           Inl e \<Rightarrow> (1, w)
         | Inr (success, w') \<Rightarrow>
             if \<not> success then (1, w'\<lparr>stdout := stdout w' @ [Aborting]\<rparr>) else (0, w'))"

section \<open>The rotation composer and the affine builder\<close>

text \<open>
  Modelled from the spec: the body of \<open>get_affines\<close>
  (\<open>converters/bvh_transforms.py\<close>) is missing. The spec describes it as a Rotation
  Composer, which, given for one frame the rotation angles tagged by axis and a
  composition order, produces the product of the elementary rotation matrices applied
  in that order, and an Affine Builder, which puts a rotation and a translation into one
  4x4 affine with bottom row \<open>[0, 0, 0, 1]\<close>. Angles are in degrees, as in a BVH file.
  A rotation is carried as a 4x4 matrix with zero translation.
\<close>

datatype axis = X | Y | Z

definition axis_of :: "char \<Rightarrow> axis option" where
  "axis_of c = map_of [(CHR ''x'', X), (CHR ''y'', Y), (CHR ''z'', Z)] c"

fun elementary_rotation :: "axis \<Rightarrow> real \<Rightarrow> mat4" where
  "elementary_rotation X a =
     Mat4 (Vec4 1 0 0 0)
          (Vec4 0 (cos (a * pi / 180)) (- sin (a * pi / 180)) 0)
          (Vec4 0 (sin (a * pi / 180)) (cos (a * pi / 180)) 0)
          (Vec4 0 0 0 1)"
| "elementary_rotation Y a =
     Mat4 (Vec4 (cos (a * pi / 180)) 0 (sin (a * pi / 180)) 0)
          (Vec4 0 1 0 0)
          (Vec4 (- sin (a * pi / 180)) 0 (cos (a * pi / 180)) 0)
          (Vec4 0 0 0 1)"
| "elementary_rotation Z a =
     Mat4 (Vec4 (cos (a * pi / 180)) (- sin (a * pi / 180)) 0 0)
          (Vec4 (sin (a * pi / 180)) (cos (a * pi / 180)) 0 0)
          (Vec4 0 0 1 0)
          (Vec4 0 0 0 1)"

text \<open>
  The rotation applied first stands rightmost in the product. A letter that names no
  axis is an error.
\<close>

fun rotation_composer :: "string \<Rightarrow> (axis \<Rightarrow> real) \<Rightarrow> error + mat4" where
  "rotation_composer [] angles = Inr eye4"
| "rotation_composer (c # order) angles =
     (case axis_of c of
        None \<Rightarrow> Inl ValueError
      | Some ax \<Rightarrow>
          (case rotation_composer order angles of
             Inl e \<Rightarrow> Inl e
           | Inr M \<Rightarrow> Inr (matmul M (elementary_rotation ax (angles ax)))))"

text \<open>
  One frame of one joint: \<open>axes\<close> is the string the traversal passes, its first letter
  the frame convention, the rest the composition order.
\<close>

definition joint_affine :: "string \<Rightarrow> (axis \<Rightarrow> real) \<times> (real \<times> real \<times> real) \<Rightarrow> error + mat4" where
  "joint_affine axes sample =
     (case rotation_composer (drop 1 axes) (fst sample) of
        Inl e \<Rightarrow> Inl e
      | Inr R \<Rightarrow> Inr (compose_affine (snd sample) R))"

fun all_frames :: "(error + mat4) list \<Rightarrow> error + mat4 list" where
  "all_frames [] = Inr []"
| "all_frames (r # rs) =
     (case r of
        Inl e \<Rightarrow> Inl e
      | Inr M \<Rightarrow> (case all_frames rs of Inl e \<Rightarrow> Inl e | Inr Ms \<Rightarrow> Inr (M # Ms)))"

text \<open>
  \<open>samples name\<close> lists, frame by frame, the angles by axis and the translation sampled
  for the joint \<open>name\<close>.
\<close>

definition spec_get_affines ::
  "(string \<Rightarrow> ((axis \<Rightarrow> real) \<times> (real \<times> real \<times> real)) list) \<Rightarrow> bvh \<Rightarrow> string \<Rightarrow> string
     \<Rightarrow> error + mat4 list" where
  "spec_get_affines samples bvh_tree name axes = all_frames (map (joint_affine axes) (samples name))"

section \<open>Channel translations set aside\<close>

text \<open>
  The same surroundings, except that every affine \<open>get_affines\<close> returns has its
  translation block zeroed: what the conversion would see if no joint had sampled
  translation values.
\<close>

definition without_sampled_translation :: "env \<Rightarrow> env" where
  "without_sampled_translation env =
     env\<lparr>get_affines := (\<lambda>bvh_tree name axes.
            case get_affines env bvh_tree name axes of
              Inl e \<Rightarrow> Inl e
            | Inr W \<Rightarrow> Inr (map (set_translation (0, 0, 0)) W))\<rparr>"

section \<open>Comparing trees\<close>

text \<open>The tree with the name token of every \<open>End\<close> node blanked.\<close>

fun erase_end_names :: "node \<Rightarrow> node" where
  "erase_end_names (Node v cs) =
     Node (if take 1 v = [''End''] then v[1 := []] else v) (map erase_end_names cs)"

section \<open>A small skeleton\<close>

text \<open>
  \<open>Hips\<close> with six channels and one child \<open>Spine\<close> at offset \<open>(0, 1, 0)\<close>, which ends
  in an End Site; one frame, in which \<open>Hips\<close> stands at \<open>(1, 0, 0)\<close> and every angle
  is zero.
\<close>

definition ex_spine :: node where
  "ex_spine =
     Node [''JOINT'', ''Spine'']
       [Node [''OFFSET'', ''0'', ''1'', ''0''] [],
        Node [''CHANNELS'', ''3'', ''Zrotation'', ''Xrotation'', ''Yrotation''] [],
        Node [''End'', ''Site''] [Node [''OFFSET'', ''0'', ''1'', ''0''] []]]"

definition ex_hips :: node where
  "ex_hips =
     Node [''ROOT'', ''Hips'']
       [Node [''OFFSET'', ''0'', ''0'', ''0''] [],
        Node [''CHANNELS'', ''6'', ''Xposition'', ''Yposition'', ''Zposition'',
              ''Zrotation'', ''Xrotation'', ''Yrotation''] [],
        ex_spine]"

definition ex_samples :: "string \<Rightarrow> ((axis \<Rightarrow> real) \<times> (real \<times> real \<times> real)) list" where
  "ex_samples name = (if name = ''Hips'' then [(\<lambda>ax. 0, (1, 0, 0))] else [(\<lambda>ax. 0, (0, 0, 0))])"

definition ex_top :: node where
  "ex_top =
     Node [] [Node [''HIERARCHY''] [], ex_hips, Node [''MOTION''] [],
              Node [''Frames:'', ''1''] [], Node [''Frame'', ''Time:'', ''1''] []]"

definition ex_bvh :: bvh where
  "ex_bvh =
     \<lparr>root = ex_top,
      nframes = Inr 1,
      frame_time = Inr 1,
      joint_channels = (\<lambda>name.
        if name = ''Hips'' then Inr [''Xposition'', ''Yposition'', ''Zposition'',
                                     ''Zrotation'', ''Xrotation'', ''Yrotation'']
        else Inr [''Zrotation'', ''Xrotation'', ''Yrotation'']),
      frames_joint_channels = (\<lambda>name channels. Inr [map (\<lambda>ch. 0) channels])\<rparr>"

definition ex_env :: env where
  "ex_env =
     \<lparr>get_affines = spec_get_affines ex_samples,
      pyfloat = map_of [(''0'', 0), (''1'', 1)],
      arange = (\<lambda>start stop step. Inr [0]),
      open_bvh = (\<lambda>path. if path = ''walk.bvh'' then Inr ex_bvh else Inl OSError),
      dirname = (\<lambda>path. []),
      basename = (\<lambda>path. path),
      path_join = (\<lambda>d f. if d = [] then f else d @ ''/'' @ f),
      can_mkdir = (\<lambda>path. False),
      can_write = (\<lambda>path. path \<noteq> ''walk_loc.csv'')\<rparr>"

definition ex_world :: world where
  "ex_world = \<lparr>existing = {''walk.bvh''}, files = Map.empty, to_csv_calls = [], stdout = []\<rparr>"

text \<open>A skeleton whose End node carries a name of its own.\<close>

definition ex_tip :: node where
  "ex_tip =
     Node [''ROOT'', ''Hips'']
       [Node [''OFFSET'', ''0'', ''0'', ''0''] [],
        Node [''CHANNELS'', ''3'', ''Zrotation'', ''Xrotation'', ''Yrotation''] [],
        Node [''End'', ''Tip''] [Node [''OFFSET'', ''0'', ''1'', ''0''] []]]"

text \<open>The top node of the small skeleton after a traversal that includes End Sites.\<close>

definition ex_renamed :: node where
  "ex_renamed =
     Node [] [Node [''HIERARCHY''] [],
              Node [''ROOT'', ''Hips'']
                [Node [''OFFSET'', ''0'', ''0'', ''0''] [],
                 Node [''CHANNELS'', ''6'', ''Xposition'', ''Yposition'', ''Zposition'',
                       ''Zrotation'', ''Xrotation'', ''Yrotation''] [],
                 Node [''JOINT'', ''Spine'']
                   [Node [''OFFSET'', ''0'', ''1'', ''0''] [],
                    Node [''CHANNELS'', ''3'', ''Zrotation'', ''Xrotation'', ''Yrotation''] [],
                    Node [''End'', ''Spine_End''] [Node [''OFFSET'', ''0'', ''1'', ''0''] []]]],
              Node [''MOTION''] [],
              Node [''Frames:'', ''1''] [], Node [''Frame'', ''Time:'', ''1''] []]"

definition ex_tip_renamed :: node where
  "ex_tip_renamed =
     Node [''ROOT'', ''Hips'']
       [Node [''OFFSET'', ''0'', ''0'', ''0''] [],
        Node [''CHANNELS'', ''3'', ''Zrotation'', ''Xrotation'', ''Yrotation''] [],
        Node [''End'', ''Hips_End''] [Node [''OFFSET'', ''0'', ''1'', ''0''] []]]"

section \<open>numpy's arange on doubles\<close>

text \<open>
  \<open>np.arange\<close> is numpy's, and its arguments are Python floats (IEEE 754 doubles).
  \<open>to_double\<close> rounds a real number to the nearest double, ties to the even
  significand (53 bits; overflow and subnormal numbers left aside). For floating-point
  arguments \<open>np.arange(start, stop, step)\<close> has \<open>ceil((stop - start) / step)\<close>
  elements, the quotient computed in doubles, and its element \<open>i\<close> is
  \<open>start + i * delta\<close> with \<open>delta = (start + step) - start\<close>; a zero step is an
  error. The product \<open>nframes * frame_time\<close> is rounded to a double on its way in.
\<close>

definition pow2 :: "int \<Rightarrow> real" where
  "pow2 k = (if 0 \<le> k then 2 ^ nat k else 1 / 2 ^ nat (- k))"

definition round_half_even :: "real \<Rightarrow> int" where
  "round_half_even x =
     (let f = \<lfloor>x\<rfloor> in
      if x - of_int f < 1 / 2 then f
      else if 1 / 2 < x - of_int f then f + 1
      else if even f then f else f + 1)"

definition to_double :: "real \<Rightarrow> real" where
  "to_double x =
     (if x = 0 then 0
      else (let u = pow2 (\<lfloor>log 2 \<bar>x\<bar>\<rfloor> - 52)
            in of_int (round_half_even (x / u)) * u))"

definition np_arange :: "real \<Rightarrow> real \<Rightarrow> real \<Rightarrow> error + real list" where
  "np_arange start stop step =
     (let a = to_double start; b = to_double stop; s = to_double step in
      if s = 0 then Inl ValueError
      else
        (let len = nat \<lceil>to_double (to_double (b - a) / s)\<rceil>;
             delta = to_double (to_double (a + s) - a)
         in Inr (map (\<lambda>i. to_double (a + to_double (real i * delta))) [0..<len])))"

section \<open>Three frames of a tenth of a second\<close>

text \<open>
  The double nearest to 0.1, which is what \<open>Frame Time: 0.1\<close> parses to, and the small
  skeleton with three frames of that duration, every sample as before.
\<close>

definition tenth :: real where
  "tenth = 3602879701896397 / 36028797018963968"

definition ex_samples3 :: "string \<Rightarrow> ((axis \<Rightarrow> real) \<times> (real \<times> real \<times> real)) list" where
  "ex_samples3 name =
     (if name = ''Hips'' then [(\<lambda>ax. 0, (1, 0, 0)), (\<lambda>ax. 0, (1, 0, 0)), (\<lambda>ax. 0, (1, 0, 0))]
      else [(\<lambda>ax. 0, (0, 0, 0)), (\<lambda>ax. 0, (0, 0, 0)), (\<lambda>ax. 0, (0, 0, 0))])"

definition ex_bvh3 :: bvh where
  "ex_bvh3 =
     \<lparr>root = Node [] [Node [''HIERARCHY''] [], ex_hips, Node [''MOTION''] [],
                      Node [''Frames:'', ''3''] [], Node [''Frame'', ''Time:'', ''0.1''] []],
      nframes = Inr 3,
      frame_time = Inr tenth,
      joint_channels = (\<lambda>name.
        if name = ''Hips'' then Inr [''Xposition'', ''Yposition'', ''Zposition'',
                                     ''Zrotation'', ''Xrotation'', ''Yrotation'']
        else Inr [''Zrotation'', ''Xrotation'', ''Yrotation'']),
      frames_joint_channels = (\<lambda>name channels.
        Inr [map (\<lambda>ch. 0) channels, map (\<lambda>ch. 0) channels, map (\<lambda>ch. 0) channels])\<rparr>"

definition ex_env3 :: env where
  "ex_env3 = ex_env\<lparr>get_affines := spec_get_affines ex_samples3, arange := np_arange\<rparr>"

section \<open>What the traversal does to the tree\<close>

text \<open>
  The node a visit returns differs from the node visited at most in the name token of
  \<open>End\<close> nodes.
\<close>

lemma own_transforms_node:
  assumes "own_transforms env b n parent j = Inr (j', W)"
  shows "children j' = children j"
    and "take 1 (nvalue j') = take 1 (nvalue j)"
    and "take 1 (nvalue j) \<noteq> [''End''] \<Longrightarrow> j' = j"
    and "(nvalue j')[1 := []] = (nvalue j)[1 := []]"
  using assms
  by (auto simp: own_transforms_def take_Suc_conv_app_nth
           split: list.splits option.splits sum.splits if_splits prod.splits)

lemma local_transforms_node:
  assumes "local_transforms env b n parent j = Inr (j', L)"
  shows "\<exists>W. own_transforms env b n parent j = Inr (j', W)"
  using assms
  by (auto simp: local_transforms_def split: option.splits sum.splits prod.splits)

lemma world_transforms_node:
  assumes "world_transforms env b n k parent j = Inr (j', W)"
  shows "\<exists>L. local_transforms env b n parent j = Inr (j', L)"
  using assms
  by (auto simp: world_transforms_def split: option.splits sum.splits prod.splits)

lemma world_transforms_own:
  assumes "world_transforms env b n k parent j = Inr (j', W)"
  shows "\<exists>W0. own_transforms env b n parent j = Inr (j', W0)"
  using world_transforms_node [OF assms] local_transforms_node by blast

lemma merge_children_same: "merge_children cs cs = cs"
  by (induction cs) (simp_all add: merge_children_def)

lemma merge_children_erase:
  assumes "map erase_end_names ae = map erase_end_names cs"
      and "map erase_end_names aj = map erase_end_names cs"
  shows "map erase_end_names (merge_children ae aj) = map erase_end_names cs"
  using assms
proof (induction cs arbitrary: ae aj)
  case Nil
  then show ?case by (simp add: merge_children_def)
next
  case (Cons c cs)
  then obtain e es j js where "ae = e # es" "aj = j # js" by (cases ae; cases aj) auto
  with Cons show ?case by (auto simp: merge_children_def)
qed

lemma traversal_tree:
  "\<forall>j' rows. get_world_locations env b n k es parent j = Inr (j', rows) \<longrightarrow>
      erase_end_names j' = erase_end_names j \<and> take 1 (nvalue j') = take 1 (nvalue j) \<and>
      (\<not> es \<and> take 1 (nvalue j) \<noteq> [''End''] \<longrightarrow> j' = j)"
  "\<forall>cs' rows. visit_end env b n k es p cs = Inr (cs', rows) \<longrightarrow>
      map erase_end_names cs' = map erase_end_names cs"
  "\<forall>cs' rows. visit_joints env b n k es p cs = Inr (cs', rows) \<longrightarrow>
      map erase_end_names cs' = map erase_end_names cs \<and> (\<not> es \<longrightarrow> cs' = cs)"
proof (induction env b n k es parent j and env b n k es p cs and env b n k es p cs
       rule: get_world_locations_visit_end_visit_joints.induct)
  case (1 env b n k es parent v cs)
  show ?case
  proof (intro allI impI)
    fix j' rows
    assume run: "get_world_locations env b n k es parent (Node v cs) = Inr (j', rows)"
    then obtain joint' W name ae er aj jr where
      wt: "world_transforms env b n k parent (Node v cs) = Inr (joint', W)" and
      nm: "node_name joint' = Inr name" and
      en: "(if es then (if [] \<in> nvalue ` set cs then Inl IndexError
                        else visit_end env b n k es (name, W) cs) else Inr (cs, [])) = Inr (ae, er)" and
      jn: "visit_joints env b n k es (name, W) cs = Inr (aj, jr)" and
      res: "j' = Node (nvalue joint') (merge_children ae aj)"
      by (auto split: sum.splits prod.splits)
    from world_transforms_own [OF wt] obtain W0 where
      own: "own_transforms env b n parent (Node v cs) = Inr (joint', W0)" by blast
    note o = own_transforms_node [OF own]
    have e1: "map erase_end_names ae = map erase_end_names cs"
    proof (cases es)
      case True
      with en have ne: "[] \<notin> nvalue ` set cs" and ve: "visit_end env b n k es (name, W) cs = Inr (ae, er)"
        by (auto split: if_splits)
      from "1.IH"(1) [OF wt refl nm True ne] ve show ?thesis by blast
    next
      case False
      with en show ?thesis by simp
    qed
    from "1.IH"(2) [OF wt refl nm en refl] jn
    have e2: "map erase_end_names aj = map erase_end_names cs" and e3: "\<not> es \<longrightarrow> aj = cs"
      by blast+
    have "erase_end_names j' = erase_end_names (Node v cs)"
      using o(2) o(3) o(4) merge_children_erase [OF e1 e2] by (auto simp: res)
    moreover have "take 1 (nvalue j') = take 1 (nvalue (Node v cs))"
      using o(2) by (simp add: res)
    moreover have "\<not> es \<and> take 1 (nvalue (Node v cs)) \<noteq> [''End''] \<longrightarrow> j' = Node v cs"
    proof
      assume a: "\<not> es \<and> take 1 (nvalue (Node v cs)) \<noteq> [''End'']"
      then have "joint' = Node v cs" using o(3) by blast
      moreover from a en have "ae = cs" by simp
      moreover from a e3 have "aj = cs" by simp
      ultimately show "j' = Node v cs" by (simp add: res merge_children_same)
    qed
    ultimately show "erase_end_names j' = erase_end_names (Node v cs) \<and>
        take 1 (nvalue j') = take 1 (nvalue (Node v cs)) \<and>
        (\<not> es \<and> take 1 (nvalue (Node v cs)) \<noteq> [''End''] \<longrightarrow> j' = Node v cs)"
      by blast
  qed
next
  case (2 env b n k es p)
  show ?case by simp
next
  case (3 env b n k es p c cs)
  show ?case
  proof (cases "take 1 (nvalue c) = [''End'']")
    case True
    show ?thesis
    proof (intro allI impI)
      fix cs' rows
      assume "visit_end env b n k es p (c # cs) = Inr (cs', rows)"
      with True obtain c' where
        g: "get_world_locations env b n k es (Some p) c = Inr (c', rows)" and res: "cs' = c' # cs"
        by (auto split: sum.splits prod.splits)
      from "3.IH"(1) [OF True] g have "erase_end_names c' = erase_end_names c" by blast
      then show "map erase_end_names cs' = map erase_end_names (c # cs)" by (simp add: res)
    qed
  next
    case False
    show ?thesis
    proof (intro allI impI)
      fix cs' rows
      assume "visit_end env b n k es p (c # cs) = Inr (cs', rows)"
      with False obtain cs2 where
        v: "visit_end env b n k es p cs = Inr (cs2, rows)" and res: "cs' = c # cs2"
        by (auto split: sum.splits prod.splits)
      from "3.IH"(2) [OF False] v have "map erase_end_names cs2 = map erase_end_names cs" by blast
      then show "map erase_end_names cs' = map erase_end_names (c # cs)" by (simp add: res)
    qed
  qed
next
  case (4 env b n k es p)
  show ?case by simp
next
  case (5 env b n k es p c cs)
  show ?case
  proof (cases "nvalue c")
    case Nil
    then show ?thesis by simp
  next
    case (Cons tag rest)
    show ?thesis
    proof (cases "tag = ''JOINT''")
      case True
      note ih1 = "5.IH"(1) [OF Cons True]
      show ?thesis
      proof (intro allI impI)
        fix cs' rows
        assume run: "visit_joints env b n k es p (c # cs) = Inr (cs', rows)"
        with Cons True obtain c' r1 cs2 r2 where
          g: "get_world_locations env b n k es (Some p) c = Inr (c', r1)" and
          v: "visit_joints env b n k es p cs = Inr (cs2, r2)" and
          res: "cs' = c' # cs2"
          by (auto split: sum.splits prod.splits)
        from ih1 g have c1: "erase_end_names c' = erase_end_names c"
          and c2: "\<not> es \<and> take 1 (nvalue c) \<noteq> [''End''] \<longrightarrow> c' = c" by blast+
        from "5.IH"(2) [OF Cons True g refl] v
        have r: "map erase_end_names cs2 = map erase_end_names cs" "\<not> es \<longrightarrow> cs2 = cs" by blast+
        have "take 1 (nvalue c) \<noteq> [''End'']" using Cons True by simp
        with c1 c2 r show "map erase_end_names cs' = map erase_end_names (c # cs) \<and> (\<not> es \<longrightarrow> cs' = c # cs)"
          by (simp add: res)
      qed
    next
      case False
      show ?thesis
      proof (intro allI impI)
        fix cs' rows
        assume "visit_joints env b n k es p (c # cs) = Inr (cs', rows)"
        with Cons False obtain cs2 where
          v: "visit_joints env b n k es p cs = Inr (cs2, rows)" and res: "cs' = c # cs2"
          by (auto split: sum.splits prod.splits)
        from "5.IH"(3) [OF Cons False] v
        have "map erase_end_names cs2 = map erase_end_names cs" "\<not> es \<longrightarrow> cs2 = cs" by blast+
        then show "map erase_end_names cs' = map erase_end_names (c # cs) \<and> (\<not> es \<longrightarrow> cs' = c # cs)"
          by (simp add: res)
      qed
    qed
  qed
qed

section \<open>The scale factor\<close>

lemmas fk_defs = world_transforms_def local_transforms_def own_transforms_def
  getitem_def node_name_def axes_order_def joint_offset_def assign_offset_def offset_vector_def
  matmul_frames_def eye4_def merge_children_def lower_def lower_char_def
  spec_get_affines_def joint_affine_def axis_of_def

lemmas ex_defs = ex_hips_def ex_spine_def ex_env_def ex_samples_def ex_top_def

text \<open>
  C1. The claim: with scale factor \<open>k\<close>, every world translation is \<open>k\<close> times that
  of the run with scale 1. On the small skeleton, \<open>Spine\<close> stands at \<open>(1, 1, 0)\<close> in the
  run with scale 1 and at \<open>(4, 2, 0)\<close> in the run with scale 2, not at \<open>(2, 2, 0)\<close>: the
  translation of \<open>Hips\<close> is scaled once at \<open>Hips\<close> and once more at \<open>Spine\<close>.
\<close>

theorem C1_scale_compounds_below_the_root:
  "get_world_locations ex_env ex_bvh 1 1 False None ex_hips =
     Inr (ex_hips,
          [(''Hips'', [Mat4 (Vec4 1 0 0 1) (Vec4 0 1 0 0) (Vec4 0 0 1 0) (Vec4 0 0 0 1)]),
           (''Spine'', [Mat4 (Vec4 1 0 0 1) (Vec4 0 1 0 1) (Vec4 0 0 1 0) (Vec4 0 0 0 1)])])
   \<and> get_world_locations ex_env ex_bvh 1 2 False None ex_hips =
     Inr (ex_hips,
          [(''Hips'', [Mat4 (Vec4 1 0 0 2) (Vec4 0 1 0 0) (Vec4 0 0 1 0) (Vec4 0 0 0 1)]),
           (''Spine'', [Mat4 (Vec4 1 0 0 4) (Vec4 0 1 0 2) (Vec4 0 0 1 0) (Vec4 0 0 0 1)])])"
  by (simp add: ex_defs fk_defs)

section \<open>Composition with the parent\<close>

text \<open>
  C2. The claim: the world transform of a joint is its parent's world transform times
  its local transform. In the run with scale 2 on the small skeleton, the world transform
  of \<open>Hips\<close> has translation \<open>(2, 0, 0)\<close> and the local transform of \<open>Spine\<close> has
  translation \<open>(0, 1, 0)\<close>; their product has translation \<open>(2, 1, 0)\<close>, and with the
  offset scaled first \<open>(2, 2, 0)\<close>. The world transform computed for \<open>Spine\<close> has
  translation \<open>(4, 2, 0)\<close>: it is neither product.
\<close>

theorem C2_world_is_not_parent_times_local:
  "world_transforms ex_env ex_bvh 1 2 None ex_hips =
     Inr (ex_hips, [Mat4 (Vec4 1 0 0 2) (Vec4 0 1 0 0) (Vec4 0 0 1 0) (Vec4 0 0 0 1)])
   \<and> local_transforms ex_env ex_bvh 1
        (Some (''Hips'', [Mat4 (Vec4 1 0 0 2) (Vec4 0 1 0 0) (Vec4 0 0 1 0) (Vec4 0 0 0 1)])) ex_spine =
     Inr (ex_spine, [Mat4 (Vec4 1 0 0 0) (Vec4 0 1 0 1) (Vec4 0 0 1 0) (Vec4 0 0 0 1)])
   \<and> world_transforms ex_env ex_bvh 1 2
        (Some (''Hips'', [Mat4 (Vec4 1 0 0 2) (Vec4 0 1 0 0) (Vec4 0 0 1 0) (Vec4 0 0 0 1)])) ex_spine =
     Inr (ex_spine, [Mat4 (Vec4 1 0 0 4) (Vec4 0 1 0 2) (Vec4 0 0 1 0) (Vec4 0 0 0 1)])
   \<and> matmul (Mat4 (Vec4 1 0 0 2) (Vec4 0 1 0 0) (Vec4 0 0 1 0) (Vec4 0 0 0 1))
             (Mat4 (Vec4 1 0 0 0) (Vec4 0 1 0 1) (Vec4 0 0 1 0) (Vec4 0 0 0 1)) =
     Mat4 (Vec4 1 0 0 2) (Vec4 0 1 0 1) (Vec4 0 0 1 0) (Vec4 0 0 0 1)
   \<and> matmul (Mat4 (Vec4 1 0 0 2) (Vec4 0 1 0 0) (Vec4 0 0 1 0) (Vec4 0 0 0 1))
             (scale_translation 2 (Mat4 (Vec4 1 0 0 0) (Vec4 0 1 0 1) (Vec4 0 0 1 0) (Vec4 0 0 0 1))) =
     Mat4 (Vec4 1 0 0 2) (Vec4 0 1 0 2) (Vec4 0 0 1 0) (Vec4 0 0 0 1)"
  by (simp add: ex_defs fk_defs)

section \<open>The result of a conversion\<close>

lemmas io_defs = bvh2csv_def destination_def write_joint_locations_def write_joint_rotations_def
  locations_frame_def rotations_frame_def time_col_def get_joints_def try_to_csv_def to_csv_def
  location_columns_def data_frame_def ex_bvh_def ex_world_def main_def

text \<open>
  C3. The claim: the conversion succeeds if and only if every requested write succeeded.
  With the location file alone requested and not writable, \<open>to_csv\<close> is called once and
  fails, no file is written, and \<open>bvh2csv\<close> still returns \<open>True\<close>; the process exits
  with status 0. The flag of the output that was not requested stays \<open>True\<close>, and line
  171 reports failure only when both flags are \<open>False\<close>. With both files requested,
  from the function or from the command line with neither flag given, the failed location
  write is outweighed by the rotation write in the same way.
\<close>

theorem C3_failed_write_reported_as_success:
  "\<not> can_write ex_env ''walk_loc.csv''
   \<and> bvh2csv ex_env ex_world ''walk.bvh'' None 1 False True False =
       Inr (True, ex_world\<lparr>to_csv_calls := [''walk_loc.csv''], stdout := [CouldNotWrite ''walk_loc.csv'']\<rparr>)
   \<and> main ex_env ex_world \<lparr>input_bvh = ''walk.bvh'', out = None, scale_arg = 1,
                            rotation = False, location = True, ends = False\<rparr> =
       (0, ex_world\<lparr>to_csv_calls := [''walk_loc.csv''], stdout := [CouldNotWrite ''walk_loc.csv'']\<rparr>)
   \<and> map_sum id fst (bvh2csv ex_env ex_world ''walk.bvh'' None 1 True True False) = Inr True
   \<and> fst (main ex_env ex_world \<lparr>input_bvh = ''walk.bvh'', out = None, scale_arg = 1,
                                 rotation = False, location = False, ends = False\<rparr>) = 0"
  by (simp add: ex_defs fk_defs io_defs upt_rec)

section \<open>The tree after the traversal\<close>

lemma next_filter_replace:
  assumes "next_filter ''ROOT'' cs = Inr r"
  shows "replace_root r cs = cs"
  using assms
  by (induction cs) (auto split: list.splits if_splits)

lemma replace_root_erase:
  assumes "erase_end_names r' = erase_end_names r"
  shows "map erase_end_names (replace_root r' cs) = map erase_end_names (replace_root r cs)"
  using assms by (induction cs) auto

lemma next_filter_tag:
  assumes "next_filter key cs = Inr r"
  shows "take 1 (nvalue r) = [key]"
  using assms
  by (induction cs) (auto split: list.splits if_splits)

lemma ex_locations_frame:
  "locations_frame ex_env ex_bvh 1 True =
     Inr (ex_bvh\<lparr>root := ex_renamed\<rparr>,
          [(''Hips'', [Mat4 (Vec4 1 0 0 1) (Vec4 0 1 0 0) (Vec4 0 0 1 0) (Vec4 0 0 0 1)]),
           (''Spine'', [Mat4 (Vec4 1 0 0 1) (Vec4 0 1 0 1) (Vec4 0 0 1 0) (Vec4 0 0 0 1)]),
           (''Spine_End'', [Mat4 (Vec4 1 0 0 1) (Vec4 0 1 0 2) (Vec4 0 0 1 0) (Vec4 0 0 0 1)])],
          [(''time'', [0]),
           (''Hips.x'', [1]), (''Hips.y'', [0]), (''Hips.z'', [0]),
           (''Spine.x'', [1]), (''Spine.y'', [1]), (''Spine.z'', [0]),
           (''Spine_End.x'', [1]), (''Spine_End.y'', [2]), (''Spine_End.z'', [0])])"
  by (simp add: ex_defs fk_defs io_defs ex_renamed_def)

lemma ex_locations_frame_no_ends:
  "locations_frame ex_env ex_bvh 1 False =
     Inr (ex_bvh\<lparr>root := ex_top\<rparr>,
          [(''Hips'', [Mat4 (Vec4 1 0 0 1) (Vec4 0 1 0 0) (Vec4 0 0 1 0) (Vec4 0 0 0 1)]),
           (''Spine'', [Mat4 (Vec4 1 0 0 1) (Vec4 0 1 0 1) (Vec4 0 0 1 0) (Vec4 0 0 0 1)])],
          [(''time'', [0]),
           (''Hips.x'', [1]), (''Hips.y'', [0]), (''Hips.z'', [0]),
           (''Spine.x'', [1]), (''Spine.y'', [1]), (''Spine.z'', [0])])"
  by (simp add: ex_defs fk_defs io_defs)

text \<open>
  C7, as stated. The claim: after the location conversion the parsed tree is unchanged.
  With End Sites included, the End Site of \<open>Spine\<close> is named \<open>Site\<close> before the run and
  \<open>Spine_End\<close> after it (line 91).
\<close>

theorem C7_counterexample:
  "locations_frame ex_env ex_bvh 1 True =
     Inr (ex_bvh\<lparr>root := ex_renamed\<rparr>,
          [(''Hips'', [Mat4 (Vec4 1 0 0 1) (Vec4 0 1 0 0) (Vec4 0 0 1 0) (Vec4 0 0 0 1)]),
           (''Spine'', [Mat4 (Vec4 1 0 0 1) (Vec4 0 1 0 1) (Vec4 0 0 1 0) (Vec4 0 0 0 1)]),
           (''Spine_End'', [Mat4 (Vec4 1 0 0 1) (Vec4 0 1 0 2) (Vec4 0 0 1 0) (Vec4 0 0 0 1)])],
          [(''time'', [0]),
           (''Hips.x'', [1]), (''Hips.y'', [0]), (''Hips.z'', [0]),
           (''Spine.x'', [1]), (''Spine.y'', [1]), (''Spine.z'', [0]),
           (''Spine_End.x'', [1]), (''Spine_End.y'', [2]), (''Spine_End.z'', [0])])
   \<and> root (ex_bvh\<lparr>root := ex_renamed\<rparr>) \<noteq> root ex_bvh"
  using ex_locations_frame by (simp add: ex_renamed_def ex_bvh_def ex_defs)

text \<open>
  C7, amended. After the location conversion the tree object is the one passed in,
  except for the name token (\<open>value[1]\<close>) of \<open>End\<close> nodes: node values, children and
  every other field are unchanged. When End Sites are not included the tree object is
  unchanged altogether.
\<close>

theorem C7_tree_unchanged_but_end_names:
  assumes "locations_frame env bvh_tree scale end_sites = Inr (bvh_tree', rows, df)"
  shows "erase_end_names (root bvh_tree') = erase_end_names (root bvh_tree)
         \<and> bvh_tree' = bvh_tree\<lparr>root := root bvh_tree'\<rparr>
         \<and> (\<not> end_sites \<longrightarrow> bvh_tree' = bvh_tree)"
proof -
  from assms obtain tc r n r' where
    nf: "next_filter ''ROOT'' (children (root bvh_tree)) = Inr r" and
    run: "get_world_locations env bvh_tree n scale end_sites None r = Inr (r', rows)" and
    res: "bvh_tree' = bvh_tree\<lparr>root := Node (nvalue (root bvh_tree))
                                    (replace_root r' (children (root bvh_tree)))\<rparr>"
    by (auto simp: locations_frame_def split: sum.splits prod.splits)
  from traversal_tree(1) run
  have er: "erase_end_names r' = erase_end_names r"
    and same: "\<not> end_sites \<and> take 1 (nvalue r) \<noteq> [''End''] \<longrightarrow> r' = r"
    by blast+
  have top: "Node (nvalue (root bvh_tree)) (replace_root r (children (root bvh_tree))) = root bvh_tree"
    by (simp add: next_filter_replace [OF nf])
  have "erase_end_names (root bvh_tree') =
        erase_end_names (Node (nvalue (root bvh_tree)) (replace_root r (children (root bvh_tree))))"
    using replace_root_erase [OF er] by (simp add: res)
  then have a: "erase_end_names (root bvh_tree') = erase_end_names (root bvh_tree)"
    by (simp only: top)
  have b: "bvh_tree' = bvh_tree\<lparr>root := root bvh_tree'\<rparr>"
    by (simp add: res)
  have c: "\<not> end_sites \<longrightarrow> bvh_tree' = bvh_tree"
  proof
    assume "\<not> end_sites"
    moreover have "take 1 (nvalue r) \<noteq> [''End'']" using next_filter_tag [OF nf] by simp
    ultimately have "r' = r" using same by blast
    then show "bvh_tree' = bvh_tree" using top by (simp add: res)
  qed
  from a b c show ?thesis by blast
qed

theorem C7_tree_unchanged_but_end_names_witness:
  "erase_end_names (root (ex_bvh\<lparr>root := ex_renamed\<rparr>)) = erase_end_names (root ex_bvh)
   \<and> ex_bvh\<lparr>root := ex_top\<rparr> = ex_bvh"
  using C7_tree_unchanged_but_end_names [OF ex_locations_frame]
        C7_tree_unchanged_but_end_names [OF ex_locations_frame_no_ends]
  by simp

section \<open>The names of End Sites\<close>

lemma ex_tip_run:
  "get_world_locations ex_env ex_bvh 1 1 True None ex_tip =
     Inr (ex_tip_renamed,
          [(''Hips'', [Mat4 (Vec4 1 0 0 1) (Vec4 0 1 0 0) (Vec4 0 0 1 0) (Vec4 0 0 0 1)]),
           (''Hips_End'', [Mat4 (Vec4 1 0 0 1) (Vec4 0 1 0 1) (Vec4 0 0 1 0) (Vec4 0 0 0 1)])])"
  by (simp add: ex_defs ex_tip_def ex_tip_renamed_def fk_defs)

text \<open>
  C8, as stated. The claim: an End Site is renamed if, and only if, its source name is
  the placeholder \<open>Site\<close>. The End node of this skeleton is named \<open>Tip\<close> in the source;
  the traversal names it \<open>Hips_End\<close> all the same.
\<close>

theorem C8_counterexample:
  "node_name (children ex_tip ! 2) = Inr ''Tip''
   \<and> get_world_locations ex_env ex_bvh 1 1 True None ex_tip =
     Inr (ex_tip_renamed,
          [(''Hips'', [Mat4 (Vec4 1 0 0 1) (Vec4 0 1 0 0) (Vec4 0 0 1 0) (Vec4 0 0 0 1)]),
           (''Hips_End'', [Mat4 (Vec4 1 0 0 1) (Vec4 0 1 0 1) (Vec4 0 0 1 0) (Vec4 0 0 0 1)])])
   \<and> node_name (children ex_tip_renamed ! 2) = Inr ''Hips_End''"
  using ex_tip_run by (simp add: ex_tip_def ex_tip_renamed_def node_name_def)

section \<open>No output requested\<close>

text \<open>
  C10, as stated. The claim: with neither output requested and a readable source,
  \<open>bvh2csv\<close> returns \<open>True\<close>. The source \<open>walk.bvh\<close> is readable; the destination
  directory \<open>out\<close> does not exist and cannot be created, and the \<open>OSError\<close> of
  \<open>os.mkdir\<close> (line 164) ends the call.
\<close>

theorem C10_counterexample:
  "open_bvh ex_env ''walk.bvh'' = Inr ex_bvh
   \<and> bvh2csv ex_env ex_world ''walk.bvh'' (Some ''out'') 1 False False False = Inl OSError"
  by (simp add: ex_defs fk_defs io_defs)

lemma destination_keeps:
  assumes "destination env w bvh_filepath dst_dirpath = Inr (dst, w1)"
  shows "files w1 = files w" and "to_csv_calls w1 = to_csv_calls w" and "stdout w1 = stdout w"
  using assms
  by (auto simp: destination_def Let_def split: option.splits if_splits)

lemma destination_ok:
  assumes "dst_dirpath = None \<or> dst_dirpath = Some [] \<or>
           (\<exists>d. dst_dirpath = Some d \<and> (d \<in> existing w \<or> can_mkdir env d))"
  shows "\<exists>dst w1. destination env w bvh_filepath dst_dirpath = Inr (dst, w1)"
  using assms
  by (auto simp: destination_def Let_def split: option.splits if_splits)

lemma ex_open: "open_bvh ex_env ''walk.bvh'' = Inr ex_bvh"
  by (simp add: ex_env_def)

text \<open>
  C10, amended. With neither output requested, a readable source, and a destination
  directory that is not given, is empty, exists or can be created, \<open>bvh2csv\<close> calls
  \<open>to_csv\<close> not at all, writes no file, prints nothing and returns \<open>True\<close>.
\<close>

theorem C10_nothing_requested:
  assumes "open_bvh env bvh_filepath = Inr mocap"
      and "dst_dirpath = None \<or> dst_dirpath = Some [] \<or>
           (\<exists>d. dst_dirpath = Some d \<and> (d \<in> existing w \<or> can_mkdir env d))"
  shows "\<exists>w'. bvh2csv env w bvh_filepath dst_dirpath scale False False end_sites = Inr (True, w')
           \<and> files w' = files w \<and> to_csv_calls w' = to_csv_calls w \<and> stdout w' = stdout w"
proof -
  from destination_ok [OF assms(2)] obtain dst w1 where
    d: "destination env w bvh_filepath dst_dirpath = Inr (dst, w1)" by blast
  have "bvh2csv env w bvh_filepath dst_dirpath scale False False end_sites = Inr (True, w1)"
    by (simp add: bvh2csv_def assms(1) d)
  with destination_keeps [OF d] show ?thesis by simp
qed

theorem C10_nothing_requested_witness:
  "\<exists>w'. bvh2csv ex_env ex_world ''walk.bvh'' None 1 False False False = Inr (True, w')
           \<and> files w' = files ex_world \<and> to_csv_calls w' = to_csv_calls ex_world
           \<and> stdout w' = stdout ex_world"
  using C10_nothing_requested [OF ex_open, of None ex_world 1 False] by simp

section \<open>Two independent writes\<close>

lemma try_to_csv_result:
  "try_to_csv env w filepath df =
     Inr (can_write env filepath,
          if can_write env filepath
          then w\<lparr>to_csv_calls := to_csv_calls w @ [filepath],
                 files := (files w)(filepath \<mapsto> df),
                 existing := insert filepath (existing w)\<rparr>
          else w\<lparr>to_csv_calls := to_csv_calls w @ [filepath],
                 stdout := stdout w @ [CouldNotWrite filepath]\<rparr>)"
  by (simp add: try_to_csv_def to_csv_def Let_def)

lemma ex_destination: "destination ex_env ex_world ''walk.bvh'' None = Inr (''walk'', ex_world)"
  by (simp add: destination_def ex_env_def)

lemma ex_rotations_frame:
  "rotations_frame ex_env (ex_bvh\<lparr>root := ex_top\<rparr>) =
     Inr [(''time'', [0]),
          (''Hips.z'', [0]), (''Hips.x'', [0]), (''Hips.y'', [0]),
          (''Spine.z'', [0]), (''Spine.x'', [0]), (''Spine.y'', [0])]"
  by (simp add: ex_defs fk_defs io_defs upt_rec)

text \<open>
  C6. When both outputs are requested and both data frames can be built, \<open>to_csv\<close> is
  called for the location file and then for the rotation file, whichever of the two
  writes fails: a failed write is caught and reported, and leaves the other file's write
  as it would have been.
\<close>

theorem C6_both_writes_attempted:
  assumes "open_bvh env bvh_filepath = Inr mocap"
      and "destination env w bvh_filepath dst_dirpath = Inr (dst, w1)"
      and "locations_frame env mocap scale end_sites = Inr (mocap', rows, loc_df)"
      and "rotations_frame env mocap' = Inr rot_df"
  shows "\<exists>ok w'. bvh2csv env w bvh_filepath dst_dirpath scale True True end_sites = Inr (ok, w')
           \<and> to_csv_calls w' = to_csv_calls w @ [dst @ ''_loc.csv'', dst @ ''_rot.csv'']
           \<and> stdout w' = stdout w
                @ (if can_write env (dst @ ''_loc.csv'') then [] else [CouldNotWrite (dst @ ''_loc.csv'')])
                @ (if can_write env (dst @ ''_rot.csv'') then [] else [CouldNotWrite (dst @ ''_rot.csv'')])
           \<and> files w' (dst @ ''_loc.csv'') =
                (if can_write env (dst @ ''_loc.csv'') then Some loc_df else files w (dst @ ''_loc.csv''))
           \<and> files w' (dst @ ''_rot.csv'') =
                (if can_write env (dst @ ''_rot.csv'') then Some rot_df else files w (dst @ ''_rot.csv''))"
  using destination_keeps [OF assms(2)]
  by (simp add: bvh2csv_def write_joint_locations_def write_joint_rotations_def
        try_to_csv_result assms)

theorem C6_both_writes_attempted_witness:
  "\<exists>ok w'. bvh2csv ex_env ex_world ''walk.bvh'' None 1 True True False = Inr (ok, w')
     \<and> to_csv_calls w' = [''walk_loc.csv'', ''walk_rot.csv'']
     \<and> stdout w' = [CouldNotWrite ''walk_loc.csv'']
     \<and> files w' ''walk_loc.csv'' = None
     \<and> files w' ''walk_rot.csv'' =
          Some [(''time'', [0]),
                (''Hips.z'', [0]), (''Hips.x'', [0]), (''Hips.y'', [0]),
                (''Spine.z'', [0]), (''Spine.x'', [0]), (''Spine.y'', [0])]"
  using C6_both_writes_attempted
          [OF ex_open ex_destination ex_locations_frame_no_ends ex_rotations_frame]
  by (simp add: ex_env_def ex_world_def)

section \<open>The names of visited End Sites\<close>

lemma visit_joints_keeps:
  assumes "visit_joints env b n k es p cs = Inr (cs', rows)"
  shows "length cs' = length cs"
    and "i < length cs \<Longrightarrow> take 1 (nvalue (cs ! i)) \<noteq> [''JOINT''] \<Longrightarrow> cs' ! i = cs ! i"
  using assms
proof (induction cs arbitrary: cs' rows i)
  case Nil
  { case 1 then show ?case by simp }
  { case 2 then show ?case by simp }
next
  case (Cons c cs)
  { case 1
    from "1" obtain c' cs2 r2 where "cs' = c' # cs2" "visit_joints env b n k es p cs = Inr (cs2, r2)"
      by (auto split: list.splits if_splits sum.splits prod.splits)
    with Cons.IH(1) show ?case by simp }
  { case 2
    from "2"(3) obtain c' cs2 r2 where
      res: "cs' = c' # cs2" and v: "visit_joints env b n k es p cs = Inr (cs2, r2)"
      and keep: "take 1 (nvalue c) \<noteq> [''JOINT''] \<longrightarrow> c' = c"
      by (auto split: list.splits if_splits sum.splits prod.splits)
    show ?case
    proof (cases i)
      case 0
      with "2"(2) keep res show ?thesis by simp
    next
      case (Suc i')
      with "2"(1,2) Cons.IH(2) [OF _ _ v, of i'] res show ?thesis by simp
    qed }
qed

lemma visit_end_first:
  assumes "visit_end env b n k es p cs = Inr (cs', rows)"
      and "i < length cs"
      and "take 1 (nvalue (cs ! i)) = [''End'']"
      and "\<forall>j<i. take 1 (nvalue (cs ! j)) \<noteq> [''End'']"
  shows "length cs' = length cs \<and>
         get_world_locations env b n k es (Some p) (cs ! i) = Inr (cs' ! i, rows)"
  using assms
proof (induction cs arbitrary: cs' i)
  case Nil
  then show ?case by simp
next
  case (Cons c cs)
  show ?case
  proof (cases i)
    case 0
    with Cons.prems show ?thesis
      by (auto split: sum.splits prod.splits)
  next
    case (Suc i')
    with Cons.prems(4) have ne: "take 1 (nvalue c) \<noteq> [''End'']" by auto
    with Cons.prems(1) obtain cs2 where
      v: "visit_end env b n k es p cs = Inr (cs2, rows)" and res: "cs' = c # cs2"
      by (auto split: sum.splits prod.splits)
    have "\<forall>j<i'. take 1 (nvalue (cs ! j)) \<noteq> [''End'']"
      using Cons.prems(4) Suc by auto
    with Cons.IH [OF v, of i'] Cons.prems(2,3) Suc res show ?thesis by simp
  qed
qed

lemma end_node_renamed:
  assumes "get_world_locations env b n k es (Some (pname, pw)) c = Inr (c', rows)"
      and "take 1 (nvalue c) = [''End'']"
  shows "node_name c' = Inr (pname @ ''_End'') \<and> (\<exists>W more. rows = (pname @ ''_End'', W) # more)"
proof -
  obtain v cs where c: "c = Node v cs" by (cases c)
  from assms(1) [unfolded c] obtain joint' W name where
    wt: "world_transforms env b n k (Some (pname, pw)) (Node v cs) = Inr (joint', W)" and
    nm: "node_name joint' = Inr name" and
    res: "nvalue c' = nvalue joint'" "\<exists>more. rows = (name, W) # more"
    by (auto split: sum.splits prod.splits)
  from world_transforms_own [OF wt] obtain W0 where
    own: "own_transforms env b n (Some (pname, pw)) (Node v cs) = Inr (joint', W0)" by blast
  from own assms(2) have "node_name joint' = Inr (pname @ ''_End'')"
    by (auto simp: own_transforms_def node_name_def c neq_Nil_conv split: list.splits if_splits)
  with nm res show ?thesis by (auto simp: node_name_def)
qed


lemma merge_children_nth:
  assumes "i < length ae" and "length aj = length ae"
  shows "merge_children ae aj ! i =
         (if take 1 (nvalue (aj ! i)) = [''JOINT''] then aj ! i else ae ! i)"
  using assms by (simp add: merge_children_def)

text \<open>
  C8, amended. When End Sites are included, the End Site the traversal visits under a
  joint (the first \<open>End\<close> child) is given the name of that joint followed by \<open>_End\<close>,
  whatever its source name, and its columns carry that name.
\<close>

theorem C8_visited_end_sites_renamed:
  assumes "get_world_locations env bvh_tree n scale True parent joint = Inr (joint', rows)"
      and "i < length (children joint)"
      and "take 1 (nvalue (children joint ! i)) = [''End'']"
      and "\<forall>j<i. take 1 (nvalue (children joint ! j)) \<noteq> [''End'']"
  shows "\<exists>name W. node_name joint' = Inr name
           \<and> node_name (children joint' ! i) = Inr (name @ ''_End'')
           \<and> (name @ ''_End'', W) \<in> set rows"
proof -
  obtain v cs where j: "joint = Node v cs" by (cases joint)
  from assms(1) [unfolded j] obtain joint0 W name ae er aj jr where
    nm: "node_name joint0 = Inr name" and
    ve: "visit_end env bvh_tree n scale True (name, W) cs = Inr (ae, er)" and
    vj: "visit_joints env bvh_tree n scale True (name, W) cs = Inr (aj, jr)" and
    res: "joint' = Node (nvalue joint0) (merge_children ae aj)" and
    rws: "rows = (name, W) # er @ jr"
    by (auto split: sum.splits prod.splits if_splits)
  from assms(2-4) have i: "i < length cs" and
    tag: "take 1 (nvalue (cs ! i)) = [''End'']" and
    first: "\<forall>j<i. take 1 (nvalue (cs ! j)) \<noteq> [''End'']"
    by (simp_all add: j)
  from visit_end_first [OF ve i tag first] have
    lae: "length ae = length cs" and
    g: "get_world_locations env bvh_tree n scale True (Some (name, W)) (cs ! i) = Inr (ae ! i, er)"
    by blast+
  from end_node_renamed [OF g tag] obtain W' more where
    rn: "node_name (ae ! i) = Inr (name @ ''_End'')" and er: "er = (name @ ''_End'', W') # more"
    by blast
  from tag have nj: "take 1 (nvalue (cs ! i)) \<noteq> [''JOINT'']" by simp
  from visit_joints_keeps [OF vj] i nj have laj: "length aj = length cs" and keep: "aj ! i = cs ! i"
    by blast+
  have "merge_children ae aj ! i = ae ! i"
    using merge_children_nth [of i ae aj] i lae laj keep nj by simp
  then have "node_name (children joint' ! i) = Inr (name @ ''_End'')"
    using rn by (simp add: res)
  moreover have "node_name joint' = Inr name" using nm by (simp add: res node_name_def)
  moreover have "(name @ ''_End'', W') \<in> set rows" by (simp add: rws er)
  ultimately show ?thesis by blast
qed

theorem C8_visited_end_sites_renamed_witness:
  "\<exists>name W. node_name ex_tip_renamed = Inr name
     \<and> node_name (children ex_tip_renamed ! 2) = Inr (name @ ''_End'')
     \<and> (name @ ''_End'', W) \<in> set
          [(''Hips'', [Mat4 (Vec4 1 0 0 1) (Vec4 0 1 0 0) (Vec4 0 0 1 0) (Vec4 0 0 0 1)]),
           (''Hips_End'', [Mat4 (Vec4 1 0 0 1) (Vec4 0 1 0 1) (Vec4 0 0 1 0) (Vec4 0 0 0 1)])]"
proof -
  have h2: "2 < length (children ex_tip)" by (simp add: ex_tip_def)
  have h3: "take 1 (nvalue (children ex_tip ! 2)) = [''End'']" by (simp add: ex_tip_def)
  have h4: "\<forall>j<2. take 1 (nvalue (children ex_tip ! j)) \<noteq> [''End'']"
    by (simp add: ex_tip_def numeral_2_eq_2 less_Suc_eq)
  show ?thesis by (rule C8_visited_end_sites_renamed [OF ex_tip_run h2 h3 h4])
qed

section \<open>The translation of a joint below the root\<close>

lemma set_translation_twice: "set_translation t (set_translation t' M) = set_translation t M"
  by (cases t; cases t'; cases M rule: transpose4.cases) simp

lemma translation_set: "translation (set_translation t M) = t"
  by (cases t; cases M rule: transpose4.cases) simp

lemma assign_offset_zeroed:
  "assign_offset offset (map (set_translation t') W) = assign_offset offset W"
  by (simp add: assign_offset_def set_translation_twice split: sum.splits)

lemma joint_offset_without: "joint_offset (without_sampled_translation env) j = joint_offset env j"
  by (simp add: joint_offset_def without_sampled_translation_def split: sum.splits option.splits)

lemma own_transforms_without:
  "own_transforms (without_sampled_translation env) b n p j =
     (case own_transforms env b n p j of
        Inl e \<Rightarrow> Inl e
      | Inr (j', W) \<Rightarrow>
          Inr (j', if take 1 (nvalue j) = [''End''] then W else map (set_translation (0, 0, 0)) W))"
proof (cases "nvalue j")
  case Nil
  then show ?thesis by (simp add: own_transforms_def)
next
  case (Cons tag rest)
  show ?thesis
  proof (cases "tag = ''End''")
    case True
    with Cons show ?thesis
      by (simp add: own_transforms_def split: option.splits prod.splits)
  next
    case False
    have ga: "get_affines (without_sampled_translation env) =
              (\<lambda>bvh_tree name axes.
                 case get_affines env bvh_tree name axes of
                   Inl e \<Rightarrow> Inl e
                 | Inr W \<Rightarrow> Inr (map (set_translation (0, 0, 0)) W))"
      by (simp add: without_sampled_translation_def)
    show ?thesis
    proof (cases "getitem j ''CHANNELS''")
      case (Inl e)
      with Cons False show ?thesis by (simp add: own_transforms_def)
    next
      case (Inr r)
      show ?thesis
      proof (cases r)
        case None
        with Inr Cons False show ?thesis by (simp add: own_transforms_def)
      next
        case (Some toks)
        show ?thesis
        proof (cases "node_name j")
          case (Inl e)
          with Some Inr Cons False show ?thesis by (simp add: own_transforms_def)
        next
          case name: (Inr name)
          show ?thesis
            using Some Inr Cons False name
            by (cases "get_affines env b name (axes_order (drop 1 toks))")
               (simp_all add: own_transforms_def ga)
        qed
      qed
    qed
  qed
qed

lemma local_transforms_without:
  "local_transforms (without_sampled_translation env) b n (Some p) j =
   local_transforms env b n (Some p) j"
proof (cases "own_transforms env b n (Some p) j")
  case (Inl e)
  then show ?thesis by (simp add: local_transforms_def own_transforms_without)
next
  case (Inr r)
  obtain j' W where r: "r = (j', W)" by (cases r)
  show ?thesis
  proof (cases "joint_offset env j'")
    case (Inl e)
    with Inr r show ?thesis
      by (simp add: local_transforms_def own_transforms_without joint_offset_without)
  next
    case off: (Inr offset)
    with Inr r show ?thesis
      by (simp add: local_transforms_def own_transforms_without joint_offset_without
            assign_offset_zeroed)
  qed
qed

lemma world_transforms_without:
  "world_transforms (without_sampled_translation env) b n k (Some p) j =
   world_transforms env b n k (Some p) j"
  by (simp add: world_transforms_def local_transforms_without)


lemma traversal_without:
  "parent \<noteq> None \<longrightarrow>
     get_world_locations (without_sampled_translation env) b n k es parent j =
     get_world_locations env b n k es parent j"
  "visit_end (without_sampled_translation env) b n k es p cs = visit_end env b n k es p cs"
  "visit_joints (without_sampled_translation env) b n k es p cs = visit_joints env b n k es p cs"
proof (induction env b n k es parent j and env b n k es p cs and env b n k es p cs
       rule: get_world_locations_visit_end_visit_joints.induct)
  case (1 env b n k es parent v cs)
  show ?case
  proof
    assume "parent \<noteq> None"
    then obtain p where p: "parent = Some p" by blast
    note wt = world_transforms_without [of env b n k p "Node v cs"]
    show "get_world_locations (without_sampled_translation env) b n k es parent (Node v cs) =
          get_world_locations env b n k es parent (Node v cs)"
    proof (cases "world_transforms env b n k parent (Node v cs)")
      case (Inl e)
      with wt p show ?thesis by simp
    next
      case (Inr r)
      obtain joint' W where r: "r = (joint', W)" by (cases r)
      show ?thesis
      proof (cases "node_name joint'")
        case (Inl e)
        with Inr r wt p show ?thesis by simp
      next
        case name: (Inr name)
        have ve: "(if es then (if [] \<in> nvalue ` set cs then Inl IndexError
                     else visit_end (without_sampled_translation env) b n k es (name, W) cs)
                   else Inr (cs, [])) =
                  (if es then (if [] \<in> nvalue ` set cs then Inl IndexError
                     else visit_end env b n k es (name, W) cs)
                   else Inr (cs, []))"
          using "1.IH"(1) [OF Inr [unfolded r] refl name] by simp
        show ?thesis
        proof (cases "if es then (if [] \<in> nvalue ` set cs then Inl IndexError
                     else visit_end env b n k es (name, W) cs)
                   else Inr (cs, [])")
          case (Inl e)
          with ve Inr r wt p name show ?thesis by simp
        next
          case ends: (Inr bb)
          obtain ae er where bb: "bb = (ae, er)" by (cases bb)
          have vj: "visit_joints (without_sampled_translation env) b n k es (name, W) cs =
                    visit_joints env b n k es (name, W) cs"
            using "1.IH"(2) [OF Inr [unfolded r] refl name ends [unfolded bb] refl] .
          from ve ends bb Inr r wt p name vj show ?thesis by simp
        qed
      qed
    qed
  qed
next
  case (2 env b n k es p)
  show ?case by simp
next
  case (3 env b n k es p c cs)
  show ?case
  proof (cases "take 1 (nvalue c) = [''End'']")
    case True
    with "3.IH"(1) [OF True] show ?thesis by simp
  next
    case False
    with "3.IH"(2) [OF False] show ?thesis by simp
  qed
next
  case (4 env b n k es p)
  show ?case by simp
next
  case (5 env b n k es p c cs)
  show ?case
  proof (cases "nvalue c")
    case Nil
    then show ?thesis by simp
  next
    case (Cons tag rest)
    show ?thesis
    proof (cases "tag = ''JOINT''")
      case True
      from "5.IH"(1) [OF Cons True]
      have g: "get_world_locations (without_sampled_translation env) b n k es (Some p) c =
               get_world_locations env b n k es (Some p) c" by simp
      show ?thesis
      proof (cases "get_world_locations env b n k es (Some p) c")
        case (Inl e)
        with g Cons True show ?thesis by simp
      next
        case (Inr r)
        obtain c' rows where r: "r = (c', rows)" by (cases r)
        from "5.IH"(2) [OF Cons True Inr [unfolded r] refl] g Inr r Cons True
        show ?thesis by simp
      qed
    next
      case False
      with "5.IH"(3) [OF Cons False] Cons show ?thesis by simp
    qed
  qed
qed

lemma assign_offset_translation:
  assumes "assign_offset offset W = Inr L"
  shows "\<exists>t. offset_vector offset = Inr t \<and> list_all (\<lambda>M. translation M = t) L"
  using assms
  by (auto simp: assign_offset_def list_all_iff translation_set split: sum.splits)

lemma scale_translation_one: "scale_translation 1 M = M"
  by (cases M rule: transpose4.cases) simp

lemma map_scale_translation_one: "map (scale_translation 1) W = W"
  by (induction W) (simp_all add: scale_translation_one)

lemma scaling_after_composition:
  "scale_translation k
     (matmul (Mat4 p0 p1 p2 (Vec4 0 0 0 p33))
             (set_translation (x, y, z) (Mat4 m0 m1 m2 (Vec4 0 0 0 m33)))) =
   matmul (scale_translation k (Mat4 p0 p1 p2 (Vec4 0 0 0 p33)))
          (set_translation (x * k, y * k, z * k) (Mat4 m0 m1 m2 (Vec4 0 0 0 m33)))"
  by (cases p0; cases p1; cases p2; cases m0; cases m1; cases m2) (simp add: algebra_simps)

text \<open>
  For a joint other than the root, the translation block of every local transform that
  enters the composition is the joint's OFFSET as parsed; the world transform is the
  product of the parent's world transform and that local transform, with the translation
  block of the product multiplied by the scale factor. The translation that
  \<open>get_affines\<close> sampled from the joint's channels is overwritten: the traversal of
  the joint and of everything below it gives the same result when every sampled
  translation is replaced by zero.
\<close>

lemma offset_replaces_sampled_translation:
  assumes "world_transforms env bvh_tree n scale (Some (pname, pw)) joint = Inr (joint', W)"
  shows "(\<exists>offset t L W0.
            joint_offset env joint = Inr offset \<and> offset_vector offset = Inr t
          \<and> local_transforms env bvh_tree n (Some (pname, pw)) joint = Inr (joint', L)
          \<and> list_all (\<lambda>M. translation M = t) L
          \<and> matmul_frames pw L = Inr W0
          \<and> W = map (scale_translation scale) W0)
       \<and> get_world_locations (without_sampled_translation env) bvh_tree n scale end_sites
            (Some (pname, pw)) joint =
         get_world_locations env bvh_tree n scale end_sites (Some (pname, pw)) joint"
proof -
  from assms obtain L W0 where
    loc: "local_transforms env bvh_tree n (Some (pname, pw)) joint = Inr (joint', L)" and
    mm: "matmul_frames pw L = Inr W0" and
    w: "W = (if scale \<noteq> 1 then map (scale_translation scale) W0 else W0)"
    by (auto simp: world_transforms_def split: sum.splits prod.splits)
  from loc obtain W1 offset where
    own: "own_transforms env bvh_tree n (Some (pname, pw)) joint = Inr (joint', W1)" and
    off: "joint_offset env joint' = Inr offset" and
    asg: "assign_offset offset W1 = Inr L"
    by (auto simp: local_transforms_def split: sum.splits prod.splits)
  from own_transforms_node(1) [OF own] have "joint_offset env joint' = joint_offset env joint"
    by (simp add: joint_offset_def getitem_def)
  with off have off': "joint_offset env joint = Inr offset" by simp
  from assign_offset_translation [OF asg] obtain t where
    t: "offset_vector offset = Inr t" "list_all (\<lambda>M. translation M = t) L" by blast
  have "W = map (scale_translation scale) W0"
    using w by (cases "scale = 1") (simp_all add: map_scale_translation_one)
  with off' t loc mm traversal_without(1) [of "Some (pname, pw)" env bvh_tree n scale end_sites joint]
  show ?thesis by blast
qed

text \<open>
  C4. The claim: the translation of the local transform of a joint below the root is
  its OFFSET, scaled, and never its sampled translation. The second half holds (lemma
  \<open>offset_replaces_sampled_translation\<close>). The first does not: in the run with scale 2
  on the small skeleton the OFFSET of \<open>Spine\<close> is \<open>(0, 1, 0)\<close> and the translation of
  its local transform is \<open>(0, 1, 0)\<close>, not \<open>(0, 2, 0)\<close>; the factor is applied to the
  composed matrix instead (line 106), whose translation is \<open>(4, 2, 0)\<close>, where the
  parent's world transform composed with the scaled offset gives \<open>(2, 2, 0)\<close>.
\<close>

theorem C4_offset_enters_unscaled:
  "joint_offset ex_env ex_spine = Inr [0, 1, 0]
   \<and> local_transforms ex_env ex_bvh 1
        (Some (''Hips'', [Mat4 (Vec4 1 0 0 2) (Vec4 0 1 0 0) (Vec4 0 0 1 0) (Vec4 0 0 0 1)])) ex_spine =
       Inr (ex_spine, [Mat4 (Vec4 1 0 0 0) (Vec4 0 1 0 1) (Vec4 0 0 1 0) (Vec4 0 0 0 1)])
   \<and> translation (Mat4 (Vec4 1 0 0 0) (Vec4 0 1 0 1) (Vec4 0 0 1 0) (Vec4 0 0 0 1)) = (0, 1, 0)
   \<and> translation (Mat4 (Vec4 1 0 0 0) (Vec4 0 1 0 1) (Vec4 0 0 1 0) (Vec4 0 0 0 1)) \<noteq> (0, 2, 0)
   \<and> world_transforms ex_env ex_bvh 1 2
        (Some (''Hips'', [Mat4 (Vec4 1 0 0 2) (Vec4 0 1 0 0) (Vec4 0 0 1 0) (Vec4 0 0 0 1)])) ex_spine =
       Inr (ex_spine, [Mat4 (Vec4 1 0 0 4) (Vec4 0 1 0 2) (Vec4 0 0 1 0) (Vec4 0 0 0 1)])
   \<and> matmul (Mat4 (Vec4 1 0 0 2) (Vec4 0 1 0 0) (Vec4 0 0 1 0) (Vec4 0 0 0 1))
             (set_translation (0, 2, 0) (Mat4 (Vec4 1 0 0 0) (Vec4 0 1 0 1) (Vec4 0 0 1 0) (Vec4 0 0 0 1))) =
       Mat4 (Vec4 1 0 0 2) (Vec4 0 1 0 2) (Vec4 0 0 1 0) (Vec4 0 0 0 1)
   \<and> Mat4 (Vec4 1 0 0 4) (Vec4 0 1 0 2) (Vec4 0 0 1 0) (Vec4 0 0 0 1) \<noteq>
       Mat4 (Vec4 1 0 0 2) (Vec4 0 1 0 2) (Vec4 0 0 1 0) (Vec4 0 0 0 1)"
  by (simp add: ex_defs fk_defs)

section \<open>The order of the rotations\<close>









section \<open>The time column\<close>

lemma pow2_powr: "pow2 k = 2 powr of_int k"
  by (simp add: pow2_def powr_int)

lemma to_double_binade:
  assumes "0 < x" and "pow2 k \<le> x" and "x < pow2 (k + 1)"
  shows "to_double x = of_int (round_half_even (x / pow2 (k - 52))) * pow2 (k - 52)"
proof -
  from assms have "\<lfloor>log 2 x\<rfloor> = k" by (simp add: floor_log_eq_powr_iff pow2_powr)
  with assms(1) show ?thesis by (simp add: to_double_def Let_def)
qed

lemma to_double_tenth: "to_double tenth = tenth"
  unfolding tenth_def
  by (subst to_double_binade [where k = "-4"]) (simp_all add: pow2_def round_half_even_def Let_def)

lemma to_double_two_tenths: "to_double (2 * tenth) = 2 * tenth"
  unfolding tenth_def
  by (subst to_double_binade [where k = "-3"]) (simp_all add: pow2_def round_half_even_def Let_def)

lemma to_double_three_tenths: "to_double (3 * tenth) = 1351079888211149 / 4503599627370496"
  unfolding tenth_def
  by (subst to_double_binade [where k = "-2"]) (simp_all add: pow2_def round_half_even_def Let_def)

lemma to_double_stop:
  "to_double (1351079888211149 / 4503599627370496) = 1351079888211149 / 4503599627370496"
  by (subst to_double_binade [where k = "-2"]) (simp_all add: pow2_def round_half_even_def Let_def)

lemma to_double_quotient:
  "to_double (1351079888211149 / (4503599627370496 * tenth)) = 6755399441055745 / 2251799813685248"
  unfolding tenth_def
  by (subst to_double_binade [where k = "1"]) (simp_all add: pow2_def round_half_even_def Let_def)

lemma tenth_nonzero: "tenth \<noteq> 0"
  by (simp add: tenth_def)

lemma np_arange_three_tenths:
  "np_arange 0 (3 * tenth) tenth =
     Inr [0, tenth, 2 * tenth, 1351079888211149 / 4503599627370496]"
proof -
  have z: "to_double 0 = 0" by (simp add: to_double_def)
  have len: "nat \<lceil>6755399441055745 / 2251799813685248 :: real\<rceil> = 4" by simp
  have l: "[0..<4] = [0, 1, 2, 3]" by (simp add: upt_rec)
  show ?thesis
    by (simp add: np_arange_def Let_def z to_double_tenth to_double_two_tenths
          to_double_three_tenths to_double_stop to_double_quotient tenth_nonzero len l)
qed


lemmas ex3_defs = ex_env3_def ex_bvh3_def ex_samples3_def

lemma ex_time_col3:
  "time_col ex_env3 ex_bvh3 =
     Inr (''time'', [0, tenth, 2 * tenth, 1351079888211149 / 4503599627370496])"
  by (simp add: time_col_def ex3_defs ex_env_def np_arange_three_tenths)

text \<open>
  C9. The claim: both tables have exactly \<open>nframes\<close> data rows, the time of row \<open>i\<close>
  being \<open>i * frame_time\<close>. With three frames of 0.1 seconds the product
  \<open>3 * 0.1\<close> is the double \<open>0.30000000000000004\<close>, its quotient by \<open>0.1\<close> is the double
  \<open>3.0000000000000004\<close>, and the ceiling of that is 4: the time column has four
  values in both tables while every joint column has three, and \<open>pd.concat\<close> aligns
  them to four rows.
\<close>

theorem C9_one_time_value_too_many:
  "nframes ex_bvh3 = Inr 3 \<and> frame_time ex_bvh3 = Inr tenth
   \<and> time_col ex_env3 ex_bvh3 =
       Inr (''time'', [0, tenth, 2 * tenth, 1351079888211149 / 4503599627370496])
   \<and> map_sum id (\<lambda>r. map (\<lambda>c. (fst c, length (snd c))) (snd (snd r)))
        (locations_frame ex_env3 ex_bvh3 1 False) =
       Inr [(''time'', 4),
            (''Hips.x'', 3), (''Hips.y'', 3), (''Hips.z'', 3),
            (''Spine.x'', 3), (''Spine.y'', 3), (''Spine.z'', 3)]
   \<and> map_sum id (map (\<lambda>c. (fst c, length (snd c)))) (rotations_frame ex_env3 ex_bvh3) =
       Inr [(''time'', 4),
            (''Hips.z'', 3), (''Hips.x'', 3), (''Hips.y'', 3),
            (''Spine.z'', 3), (''Spine.x'', 3), (''Spine.y'', 3)]"
proof -
  have a: "nframes ex_bvh3 = Inr 3" "frame_time ex_bvh3 = Inr tenth"
    by (simp_all add: ex_bvh3_def)
  have b: "map_sum id (\<lambda>r. map (\<lambda>c. (fst c, length (snd c))) (snd (snd r)))
        (locations_frame ex_env3 ex_bvh3 1 False) =
       Inr [(''time'', 4),
            (''Hips.x'', 3), (''Hips.y'', 3), (''Hips.z'', 3),
            (''Spine.x'', 3), (''Spine.y'', 3), (''Spine.z'', 3)]"
    by (simp add: locations_frame_def ex_time_col3 location_columns_def)
       (simp add: ex3_defs ex_hips_def ex_spine_def ex_env_def fk_defs location_columns_def)
  have c: "map_sum id (map (\<lambda>c. (fst c, length (snd c)))) (rotations_frame ex_env3 ex_bvh3) =
       Inr [(''time'', 4),
            (''Hips.z'', 3), (''Hips.x'', 3), (''Hips.y'', 3),
            (''Spine.z'', 3), (''Spine.x'', 3), (''Spine.y'', 3)]"
    by (simp add: rotations_frame_def ex_time_col3)
       (simp add: ex3_defs ex_hips_def ex_spine_def get_joints_def data_frame_def fk_defs upt_rec)
  from a b c ex_time_col3 show ?thesis by simp
qed

end
